theory Spec2Isabelle
  imports Main
begin

unbundle bit_operations_syntax

section \<open>Shared data model of the debug adapter (goDebug.ts)\<close>

text \<open>
  JavaScript values that cross the JSON-RPC boundary are kept as a small JSON tree, so
  that the argument list of every backend call reads as it does in the source.
  Numbers that the adapter only passes around (ids, lines) are integers.
\<close>

datatype jv = JNull | JBool bool | JNum int | JStr string
  | JObj "(string \<times> jv) list" | JArr "jv list"

text \<open>Errors of the JavaScript runtime that the modelled code can raise.\<close>

datatype js_error = TypeError | Rethrown "string option"

record debug_function =
  fn_name :: string

record debug_location =
  loc_file :: string
  loc_line :: int
  loc_function :: "debug_function option"

record debug_goroutine =
  g_id :: int
  userCurrentLoc :: debug_location

record debug_thread =
  th_file :: string
  th_goroutineID :: int

record debugger_state =
  exited :: bool
  exitStatus :: int
  currentThread :: "debug_thread option"
  currentGoroutine :: "debug_goroutine option"
  Running :: bool

text \<open>A DAP thread, \<open>new Thread(id, name)\<close>.\<close>

datatype thread = Thread int string

text \<open>
  The body of a successful response. \<open>EmptyBody\<close> is a response sent as it came
  (launch, attach). A breakpoint entry is \<open>{verified, line}\<close>; its line is \<open>None\<close>
  when the JavaScript value is \<open>undefined\<close>. A scope is
  \<open>new Scope(name, variablesReference, expensive)\<close>.
\<close>

datatype response_body =
    EmptyBody
  | ThreadsBody "thread list"
  | SetVariableBody string
  | BreakpointsBody "(bool \<times> int option) list"
  | ScopesBody "(string \<times> nat \<times> bool) list"

datatype event = InitializedEvent | TerminatedEvent | StoppedEvent string int

text \<open>
  What a handler does, in order: responses and events sent to the client, calls issued to
  the backend, processes and sockets touched. \<open>LogDelveError e m\<close> stands for
  \<open>this.logDelveError(err, m)\<close> with \<open>err.toString() = e\<close>: it writes the error log
  and starts the diagnostic stack dump.
  \<open>SendErrorResponse code format variables\<close> is
  \<open>sendErrorResponse(response, code, format, variables)\<close>.
  \<open>Spawn cmd argv\<close> is \<open>spawn(cmd, argv, ...)\<close>; \<open>ConnectClient port host\<close> is the
  socket connection to the backend that \<open>connectClient\<close> opens; \<open>KillTree pid\<close> is
  \<open>kill(pid, ...)\<close> of tree-kill; \<open>RemoveFile p\<close> is \<open>removeFile(p)\<close>; \<open>ConnEnd\<close>
  closes the JSON-RPC socket; \<open>ClearTimeout\<close> and \<open>Resolve\<close> are \<open>clearTimeout(timeoutToken)\<close>
  and the \<open>resolve()\<close> of the promise that \<open>close\<close> returns; \<open>Throw e\<close> is an
  exception that leaves the handler.
\<close>

datatype action =
    SendResponse response_body
  | SendErrorResponse nat string "(string \<times> string) list"
  | SendEvent event
  | Rpc string "jv list"
  | LogDelveError string string
  | Spawn string "string list"
  | ConnectClient int string
  | KillTree nat
  | RemoveFile "string option"
  | ConnEnd
  | ClearTimeout
  | Resolve
  | Throw js_error

text \<open>
  The fields of class \<open>Delve\<close> that the modelled methods read. \<open>debugProcess\<close> is the
  pid of the child the adapter spawned, \<open>None\<close> when it owns none;
  \<open>localDebugeePath\<close> is \<open>None\<close> when it was never assigned.
\<close>

datatype request_kind = Launch | Attach

record load_config =
  followPointers :: bool
  maxVariableRecurse :: int
  maxStringLen :: int
  maxArrayValues :: int
  maxStructFields :: int

text \<open>A breakpoint record of the backend (\<open>DebugBreakpoint\<close>), with the fields the adapter reads.\<close>

record debug_breakpoint =
  bp_id :: int
  bp_file :: string
  bp_line :: int
  bp_cond :: "string option"

record delve =
  request :: request_kind
  program :: string
  remotePath :: string
  noDebug :: bool
  isApiV1 :: bool
  isRemoteDebugging :: bool
  debugProcess :: "nat option"
  localDebugeePath :: "string option"
  loadConfig :: load_config

text \<open>
  A variable as the backend reports it. The scalar fields are a record, the children hang
  below. \<open>fullyQualifiedName\<close> is not sent by the backend: it is \<open>None\<close>
  (\<open>undefined\<close>) until the adapter assigns it.
\<close>

datatype GoReflectKind =
    KInvalid | KBool | KInt | KInt8 | KInt16 | KInt32 | KInt64
  | KUint | KUint8 | KUint16 | KUint32 | KUint64 | KUintptr
  | KFloat32 | KFloat64 | KComplex64 | KComplex128
  | KArray | KChan | KFunc | KInterface | KMap | KPtr | KSlice | KString | KStruct
  | KUnsafePointer

record var_fields =
  v_name :: string
  v_addr :: nat
  v_type :: string
  v_realType :: string
  v_kind :: GoReflectKind
  v_flags :: int
  v_onlyAddr :: bool
  v_DeclLine :: int
  v_value :: string
  v_len :: int
  v_cap :: int
  v_unreadable :: string
  v_fullyQualifiedName :: "string option"
  v_base :: nat

datatype debug_variable = Var (vfields: var_fields) (vchildren: "debug_variable list")

text \<open>
  \<open>Handles\<close> of vscode-debugadapter: \<open>create\<close> hands out the next integer, starting at
  1000, and stores the value under it; \<open>reset\<close> starts over with an empty table.
\<close>

record 'a handles =
  nextHandle :: nat
  handleMap :: "(nat \<times> 'a) list"


definition createHandle :: "'a \<Rightarrow> 'a handles \<Rightarrow> nat \<times> 'a handles" where
  "createHandle v h =
     (nextHandle h, \<lparr>nextHandle = nextHandle h + 1, handleMap = handleMap h @ [(nextHandle h, v)]\<rparr>)"

text \<open>\<open>Handles.get\<close>: the value stored last under the handle, \<open>None\<close> for \<open>undefined\<close>.\<close>

definition getHandle :: "'a handles \<Rightarrow> nat \<Rightarrow> 'a option" where
  "getHandle h k = map_of (rev (handleMap h)) k"

text \<open>
  The fields of class \<open>GoDebugSession\<close> that the modelled methods read or write.
  \<open>continueEpoch\<close> is a JavaScript number: counting up is exact below \<open>2^53\<close> and
  stays at \<open>2^53\<close> from there (\<open>js_increment\<close>).
\<close>

record session =
  delve :: delve
  localPathSeparator :: char
  remotePathSeparator :: char
  continueEpoch :: nat
  continueRequestRunning :: bool
  skipStopEventOnce :: bool
  debugState :: "debugger_state option"
  variableHandles :: "debug_variable handles"
  stackFrameHandles :: "(int \<times> int) handles"
  breakpoints :: "string \<rightharpoonup> debug_breakpoint list"
  showGlobalVariables :: bool

section \<open>Decimal rendering of numbers\<close>

definition digitChar :: "nat \<Rightarrow> char" where
  "digitChar d = char_of (48 + d)"

fun decimal :: "nat \<Rightarrow> string" where
  "decimal n =
     (if n < 10 then [digitChar n] else decimal (n div 10) @ [digitChar (n mod 10)])"

declare decimal.simps [simp del]

definition showInt :: "int \<Rightarrow> string" where
  "showInt i = (if i < 0 then CHR ''-'' # decimal (nat (- i)) else decimal (nat i))"

section \<open>setVariableRequest\<close>

record set_variable_args =
  sv_variablesReference :: int
  sv_name :: string
  sv_value :: string

text \<open>
  The synchronous part of \<open>setVariableRequest\<close>: it reads
  \<open>this.debugState.currentGoroutine.id\<close> (a TypeError when either is missing) and issues
  \<open>SetSymbol\<close> (v1) or \<open>Set\<close> (v2) with \<open>{Scope, Symbol, Value}\<close>.
\<close>

definition setSymbolArgs :: "int \<Rightarrow> set_variable_args \<Rightarrow> jv" where
  "setSymbolArgs gid args =
     JObj [(''Scope'', JObj [(''goroutineID'', JNum gid)]),
           (''Symbol'', JStr (sv_name args)),
           (''Value'', JStr (sv_value args))]"

definition setVariableRequest :: "session \<Rightarrow> set_variable_args \<Rightarrow> js_error + action list" where
  "setVariableRequest s args =
     (case debugState s of
        None \<Rightarrow> Inl TypeError
      | Some st \<Rightarrow>
          (case currentGoroutine st of
             None \<Rightarrow> Inl TypeError
           | Some g \<Rightarrow>
               Inr [Rpc (if isApiV1 (delve s) then ''SetSymbol'' else ''Set'')
                        [setSymbolArgs (g_id g) args]]))"

text \<open>
  The callback of that call; \<open>err\<close> is \<open>None\<close> when the backend reported no error and
  \<open>Some (err.toString())\<close> otherwise.
\<close>

definition setVariableCallback :: "set_variable_args \<Rightarrow> string option \<Rightarrow> action list" where
  "setVariableCallback args err =
     (case err of
        Some e \<Rightarrow>
          [LogDelveError e ''Failed to set variable'',
           SendErrorResponse 2010 (''Failed to set variable: '' @ e) []]
      | None \<Rightarrow> [SendResponse (SetVariableBody (sv_value args))])"

text \<open>The whole request: what is issued, then what the callback does with the outcome.\<close>

definition setVariable :: "session \<Rightarrow> set_variable_args \<Rightarrow> string option \<Rightarrow> js_error + action list" where
  "setVariable s args err =
     (case setVariableRequest s args of
        Inl e \<Rightarrow> Inl e
      | Inr issued \<Rightarrow> Inr (issued @ setVariableCallback args err))"

section \<open>threadsRequest\<close>

text \<open>
  \<open>threadsRequest\<close> answers with the synthetic thread while a continue is in flight and
  otherwise issues \<open>ListGoroutines\<close>.
\<close>

definition threadsRequest :: "session \<Rightarrow> action list" where
  "threadsRequest s =
     (if continueRequestRunning s then [SendResponse (ThreadsBody [Thread 1 ''Dummy''])]
      else [Rpc ''ListGoroutines'' []])"

definition threadOfGoroutine :: "debug_goroutine \<Rightarrow> thread" where
  "threadOfGoroutine g =
     Thread (g_id g)
       (case loc_function (userCurrentLoc g) of
          Some f \<Rightarrow> fn_name f
        | None \<Rightarrow> loc_file (userCurrentLoc g) @ ''@'' @ showInt (loc_line (userCurrentLoc g)))"

text \<open>
  The callback of \<open>ListGoroutines\<close>, run on the session state \<open>s\<close> of that moment.
  \<open>err\<close> is the error's text when there is one; \<open>out\<close> is the goroutine list of the
  reply (already in the dialect's shape), \<open>None\<close> when the reply carries none.
\<close>

definition threadsCallback ::
  "session \<Rightarrow> string option \<Rightarrow> debug_goroutine list option \<Rightarrow> js_error + action list" where
  "threadsCallback s err out =
     (if (case debugState s of None \<Rightarrow> False | Some st \<Rightarrow> exited st)
      then Inr [SendResponse (ThreadsBody [])]
      else (case err of
              Some e \<Rightarrow>
                Inr [LogDelveError e ''Failed to get threads'',
                     SendErrorResponse 2003 ''Unable to display threads: \"{e}\"'' [(''e'', e)]]
            | None \<Rightarrow>
                (case out of
                   None \<Rightarrow> Inl TypeError
                 | Some goroutines \<Rightarrow>
                     (let threads = map threadOfGoroutine goroutines;
                          threads' = (if length threads = 0 then threads @ [Thread 1 ''Dummy'']
                                      else threads)
                      in Inr [SendResponse (ThreadsBody threads')]))))"

section \<open>Delve.close\<close>

definition endsWith :: "string \<Rightarrow> string \<Rightarrow> bool" where
  "endsWith s suffix =
     (length suffix \<le> length s \<and> drop (length s - length suffix) s = suffix)"



text \<open>JavaScript truthiness of a string that may be \<open>undefined\<close>.\<close>

definition truthy :: "string option \<Rightarrow> bool" where
  "truthy x = (case x of None \<Rightarrow> False | Some v \<Rightarrow> v \<noteq> [])"









section \<open>GoDebugSession.continue and its completion\<close>

definition js_increment :: "nat \<Rightarrow> nat" where
  "js_increment n = (if n < 2 ^ 53 then n + 1 else n)"



text \<open>
  The callback of that \<open>ListGoroutines\<close> call. \<open>out\<close> is \<open>None\<close> for a null reply:
  under API v2 reading \<open>out.Goroutines\<close> then throws; under v1 the null list is only
  read (\<open>goroutines.length\<close>) when the state has no current goroutine.
\<close>

definition reenterCallback ::
  "string \<Rightarrow> string option \<Rightarrow> debug_goroutine list option \<Rightarrow> session \<Rightarrow> session \<times> action list" where
  "reenterCallback reason err out s =
     (let logged = (case err of None \<Rightarrow> [] | Some e \<Rightarrow> [LogDelveError e ''Failed to get threads''])
      in case debugState s of
           None \<Rightarrow> (s, logged @ [Throw TypeError])
         | Some st \<Rightarrow>
             if out = None \<and> (\<not> isApiV1 (delve s) \<or> currentGoroutine st = None)
             then (s, logged @ [Throw TypeError])
             else
               (let goroutines = (case out of None \<Rightarrow> [] | Some gs \<Rightarrow> gs);
                    st' = (if currentGoroutine st = None \<and> length goroutines > 0
                           then st\<lparr>currentGoroutine := Some (hd goroutines)\<rparr> else st);
                    s' = s\<lparr>debugState := Some st'\<rparr>
                in if skipStopEventOnce s' then (s'\<lparr>skipStopEventOnce := False\<rparr>, logged)
                   else (case currentGoroutine st' of
                           None \<Rightarrow> (s', logged @ [Throw TypeError])
                         | Some g \<Rightarrow> (s', logged @ [SendEvent (StoppedEvent reason (g_id g))]))))"

text \<open>
  \<open>continue\<close>: bumps the epoch, captures it, raises the flag and issues the command.
  The result carries the captured \<open>closureEpoch\<close> of the two callbacks it registers.
\<close>

definition continue :: "session \<Rightarrow> session \<times> nat \<times> action list" where
  "continue s =
     (let epoch = js_increment (continueEpoch s);
          s' = s\<lparr>continueEpoch := epoch, continueRequestRunning := True\<rparr>
      in (s', epoch, [Rpc ''Command'' [JObj [(''name'', JStr ''continue'')]]]))"



text \<open>
  How the \<open>Command\<close> call of a \<open>continue\<close> settles: resolved with a state, or rejected
  with an error.
\<close>

datatype command_outcome = Resolved debugger_state | RejectedWith "string option"


section \<open>launchRequest, attachRequest and the Delve constructor\<close>

text \<open>
  The launch and attach arguments (\<open>LaunchRequestArguments\<close>, \<open>AttachRequestArguments\<close>).
  An optional attribute that is absent is \<open>None\<close>.
\<close>

record request_args =
  a_request :: request_kind
  a_program :: "string option"
  a_processId :: "int option"
  a_mode :: "string option"
  a_port :: "int option"
  a_host :: "string option"
  a_cwd :: "string option"
  a_remotePath :: "string option"
  a_noDebug :: bool
  a_dlvToolPath :: string
  a_apiVersion :: "int option"
  a_showLog :: bool
  a_logOutput :: "string option"
  a_buildFlags :: "string option"
  a_init :: "string option"
  a_backend :: "string option"
  a_output :: "string option"
  a_args :: "string list"

text \<open>
  What the adapter finds outside itself while it starts a session: the platform, the
  random port, the file system (\<open>lstatSync\<close>, \<open>existsSync\<close>, the env files), Node's
  \<open>path.extname\<close> and \<open>path.dirname\<close> of the program, the helpers of \<open>goPath\<close>, and how
  the spawned process and the socket behave.
\<close>

datatype stat_result = StatMissing | StatDirectory | StatFile

record host_env =
  win32 :: bool
  randomPort :: int
  programStat :: stat_result
  programExtname :: string
  programDirname :: string
  envFileError :: "string option"
  dlvExists :: bool
  goBinPath :: string
  currentGOWorkspace :: "string option"
  goModMapped :: bool
  spawnError :: "string option"
  stdoutSeen :: bool
  connectError :: "string option"
  getVersionReply :: "string + int"

text \<open>How \<open>this.connection\<close> settles.\<close>

datatype reject_reason = Reason string | Exception js_error

datatype connection = Connected | ResolvedEmpty | Rejected reject_reason | Pending

definition truthyNum :: "int option \<Rightarrow> bool" where
  "truthyNum x = (case x of None \<Rightarrow> False | Some n \<Rightarrow> n \<noteq> 0)"

definition orElse :: "string option \<Rightarrow> string \<Rightarrow> string" where
  "orElse x d = (if truthy x then the x else d)"

definition flag :: "string \<Rightarrow> string option \<Rightarrow> string list" where
  "flag prefix x = (if truthy x then [prefix @ the x] else [])"

definition connectClient :: "host_env \<Rightarrow> int \<Rightarrow> string \<Rightarrow> action list \<times> connection" where
  "connectClient env port host =
     ([ConnectClient port host],
      case connectError env of None \<Rightarrow> Connected | Some e \<Rightarrow> Rejected (Reason e))"

text \<open>After \<open>spawn\<close>: an error event rejects; the first stdout data connects the client.\<close>

definition spawnDlv :: "host_env \<Rightarrow> request_args \<Rightarrow> string list \<Rightarrow> int \<Rightarrow> string \<Rightarrow> action list \<times> connection" where
  "spawnDlv env args dlvArgs port host =
     (case spawnError env of
        Some e \<Rightarrow> ([Spawn (a_dlvToolPath args) dlvArgs], Rejected (Reason e))
      | None \<Rightarrow>
          if stdoutSeen env
          then (let (acts, c) = connectClient env port host
                in (Spawn (a_dlvToolPath args) dlvArgs # acts, c))
          else ([Spawn (a_dlvToolPath args) dlvArgs], Pending))"

definition commonDlvArgs :: "request_args \<Rightarrow> int \<Rightarrow> string \<Rightarrow> string list" where
  "commonDlvArgs args port host =
     [''--headless=true'', ''--listen='' @ host @ '':'' @ showInt port]
     @ (if a_apiVersion args = Some 1 then [] else [''--api-version=2''])
     @ (if a_showLog args then [''--log=true''] else [])
     @ flag ''--log-output='' (a_logOutput args)
     @ flag ''--wd='' (a_cwd args)"

definition launchDlvArgs :: "host_env \<Rightarrow> request_args \<Rightarrow> string \<Rightarrow> bool \<Rightarrow> int \<Rightarrow> string \<Rightarrow> string list" where
  "launchDlvArgs env args prog isProgramDirectory port host =
     (let mode = a_mode args;
          dirname = (if isProgramDirectory then prog else programDirname env)
      in [orElse mode ''debug'']
         @ (if mode = Some ''exec'' \<or> (mode = Some ''debug'' \<and> \<not> isProgramDirectory) then [prog]
            else if truthy (currentGOWorkspace env) \<and> \<not> goModMapped env
            then [drop (length (the (currentGOWorkspace env)) + 1) dirname]
            else [])
         @ commonDlvArgs args port host
         @ flag ''--build-flags='' (a_buildFlags args)
         @ flag ''--init='' (a_init args)
         @ flag ''--backend='' (a_backend args)
         @ (if truthy (a_output args) \<and> (mode = Some ''debug'' \<or> mode = Some ''test'')
            then [''--output='' @ the (a_output args)] else [])
         @ (if length (a_args args) > 0 then ''--'' # a_args args else []))"

definition attachDlvArgs :: "request_args \<Rightarrow> int \<Rightarrow> string \<Rightarrow> string list" where
  "attachDlvArgs args port host =
     [''attach'', showInt (the (a_processId args))]
     @ commonDlvArgs args port host
     @ flag ''--backend='' (a_backend args)"

text \<open>
  The constructor of \<open>Delve\<close>, as far as it touches the outside: what it spawns or
  connects to, how \<open>this.connection\<close> settles, and the \<open>noDebug\<close> flag it leaves.
  \<open>Inl\<close> is an exception thrown by the constructor itself (\<open>normalizePath\<close> of an
  undefined program on Windows); an exception inside the promise executor
  (\<open>path.dirname\<close> of an undefined program) rejects the connection.
  \<open>port\<close> and \<open>host\<close> are the defaulted \<open>launchArgs.port\<close> and \<open>launchArgs.host\<close>.
\<close>

definition newDelve ::
  "host_env \<Rightarrow> request_args \<Rightarrow> int \<Rightarrow> string \<Rightarrow> string option
     \<Rightarrow> js_error + (action list \<times> connection \<times> bool)" where
  "newDelve env args port host prog =
     (if win32 env \<and> prog = None then Inl TypeError
      else case prog of
        None \<Rightarrow> Inr ([], Rejected (Exception TypeError), False)
      | Some p \<Rightarrow>
         (if a_mode args = Some ''remote''
          then (let (acts, c) = connectClient env port host in Inr (acts, c, False))
          else case a_request args of
            Launch \<Rightarrow>
              (if p = [] then
                 Inr ([], Rejected (Reason
                   ''The program attribute is missing in the debug configuration in launch.json''), False)
               else if programStat env = StatMissing then
                 Inr ([], Rejected (Reason
                   ''The program attribute must point to valid directory, .go file or executable.''), False)
               else if programStat env = StatDirectory \<and> a_mode args = Some ''exec'' then
                 Inr ([], Rejected (Reason
                   ''The program attribute must be an executable in exec mode''), False)
               else if programStat env = StatFile \<and> a_mode args \<noteq> Some ''exec''
                       \<and> programExtname env \<noteq> ''.go'' then
                 Inr ([], Rejected (Reason
                   ''The program attribute must be a directory or .go file in debug mode''), False)
               else case envFileError env of
                 Some e \<Rightarrow> Inr ([], Rejected (Reason e), False)
               | None \<Rightarrow>
                  (let isProgramDirectory = (programStat env = StatDirectory) in
                   if a_noDebug args \<and> a_mode args = Some ''debug'' then
                     Inr ([Spawn (goBinPath env)
                             ([''run''] @ flag [] (a_buildFlags args)
                              @ [if isProgramDirectory then ''.'' else p] @ a_args args)],
                          ResolvedEmpty, True)
                   else if \<not> dlvExists env then
                     Inr ([], Rejected (Reason
                       (''Cannot find Delve debugger. Install from https://github.com/derekparker/delve''
                        @ '' & ensure it is in your Go tools path, \"GOPATH/bin\" or \"PATH\".'')), False)
                   else
                     (let (acts, c) = spawnDlv env args
                            (launchDlvArgs env args p isProgramDirectory port host) port host
                      in Inr (acts, c, False))))
          | Attach \<Rightarrow>
              (if \<not> truthyNum (a_processId args) then
                 Inr ([], Rejected (Reason ''Missing process ID''), False)
               else if \<not> dlvExists env then
                 Inr ([], Rejected (Reason
                   (''Cannot find Delve debugger. Install from https://github.com/go-delve/delve''
                    @ '' & ensure it is in your Go tools path, \"GOPATH/bin\" or \"PATH\".'')), False)
               else
                 (let (acts, c) = spawnDlv env args (attachDlvArgs args port host) port host
                  in Inr (acts, c, False)))))"

text \<open>String helpers: JavaScript's \<open>split\<close> at a set of separators and \<open>join\<close>.\<close>

definition backslash :: char where
  "backslash = CHR 0x5C"

definition findPathSeparator :: "string \<Rightarrow> char" where
  "findPathSeparator filePath = (if CHR ''/'' \<in> set filePath then CHR ''/'' else backslash)"

fun splitOn :: "(char \<Rightarrow> bool) \<Rightarrow> string \<Rightarrow> string list" where
  "splitOn isSep [] = [[]]"
| "splitOn isSep (c # cs) =
     (if isSep c then [] # splitOn isSep cs
      else (case splitOn isSep cs of
              [] \<Rightarrow> [[c]]
            | w # ws \<Rightarrow> (c # w) # ws))"

fun joinWith :: "string \<Rightarrow> string list \<Rightarrow> string" where
  "joinWith sep [] = []"
| "joinWith sep [x] = x"
| "joinWith sep (x # y # ys) = x @ sep @ joinWith sep (y # ys)"

definition isSlash :: "char \<Rightarrow> bool" where
  "isSlash c = (c = CHR ''/'' \<or> c = backslash)"

text \<open>
  The loop of \<open>initLaunchAttachRequest\<close> over the reversed segment lists: the number of
  trailing segments that local and remote path share, stopping at a \<open>src\<close> segment.
\<close>

fun commonCount :: "string list \<Rightarrow> string list \<Rightarrow> nat" where
  "commonCount [] rlist = 0"
| "commonCount (l # llist) [] = 0"
| "commonCount (l # llist) (r # rlist) =
     (if l \<noteq> r \<or> l = ''src'' then 0 else Suc (commonCount llist rlist))"

text \<open>
  The root adjustment of \<open>initLaunchAttachRequest\<close> when a remote path is given:
  the new local path, the new remote path, and the two separators.
\<close>

definition adjustRoots :: "string \<Rightarrow> string \<Rightarrow> string \<times> string \<times> char \<times> char" where
  "adjustRoots localPath rPath =
     (let lsep = findPathSeparator localPath;
          rsep = findPathSeparator rPath;
          lsegs = splitOn isSlash localPath;
          rsegs = splitOn isSlash rPath;
          i = commonCount (rev lsegs) (rev rsegs)
      in if i \<noteq> 0
         then (joinWith [lsep] (take (length lsegs - i) lsegs) @ [lsep],
               joinWith [rsep] (take (length rsegs - i) rsegs) @ [rsep], lsep, rsep)
         else if length rPath > 1 \<and> (endsWith rPath [backslash] \<or> endsWith rPath ''/'')
         then (localPath, butlast rPath, lsep, rsep)
         else (localPath, rPath, lsep, rsep))"

definition reasonText :: "reject_reason \<Rightarrow> string" where
  "reasonText r = (case r of Reason e \<Rightarrow> e | Exception e \<Rightarrow> ''TypeError'')"

text \<open>The callback of \<open>GetVersion\<close> in \<open>initLaunchAttachRequest\<close>.\<close>

definition getVersionCallback :: "host_env \<Rightarrow> request_args \<Rightarrow> action list" where
  "getVersionCallback env args =
     (case getVersionReply env of
        Inl e \<Rightarrow>
          [SendErrorResponse 2001 ''Failed to get remote server version: \"{e}\"'' [(''e'', e)]]
      | Inr apiVersion \<Rightarrow>
          (let clientVersion = (if a_apiVersion args = Some 1 then 1 else 2)
           in if apiVersion \<noteq> clientVersion
              then [SendErrorResponse 3000
                     (''The remote server is running on delve v'' @ showInt apiVersion
                      @ '' API and the client is running v'' @ showInt clientVersion
                      @ '' API. Change the version used on the client by using the property ''
                      @ ''\"apiVersion\" in your launch.json file.'') []]
              else []))"

text \<open>
  \<open>initLaunchAttachRequest\<close>: defaults, root adjustment, \<open>new Delve\<close>, and the two
  handlers on \<open>this.delve.connection\<close>. The trace ends with what the \<open>GetVersion\<close>
  callback does. (Logger setup and the two session flags it copies are left out.)
\<close>

definition afterDelve ::
  "host_env \<Rightarrow> request_args \<Rightarrow> js_error + (action list \<times> connection \<times> bool) \<Rightarrow> action list" where
  "afterDelve env args r =
     (case r of
        Inl e \<Rightarrow> [Throw e]
      | Inr (acts, c, nd) \<Rightarrow>
          acts @
          (case c of
             Rejected why \<Rightarrow>
               [SendErrorResponse 3000 ''Failed to continue: \"{e}\"'' [(''e'', reasonText why)]]
           | Pending \<Rightarrow> []
           | _ \<Rightarrow>
               (if nd then [SendResponse EmptyBody]
                else [Rpc ''GetVersion'' [], SendEvent InitializedEvent, SendResponse EmptyBody]
                     @ getVersionCallback env args)))"

definition initLaunchAttachRequest :: "host_env \<Rightarrow> request_args \<Rightarrow> action list" where
  "initLaunchAttachRequest env args =
     (let port = (if truthyNum (a_port args) then the (a_port args) else randomPort env);
          host = orElse (a_host args) ''127.0.0.1'';
          localPath = (case a_request args of Attach \<Rightarrow> a_cwd args | Launch \<Rightarrow> a_program args);
          rPath = orElse (a_remotePath args) []
      in if length rPath > 0
         then (case localPath of
                 None \<Rightarrow> [Throw TypeError]
               | Some lp \<Rightarrow>
                   (let (lp', rp', lsep, rsep) = adjustRoots lp rPath
                    in afterDelve env args (newDelve env args port host (Some lp'))))
         else afterDelve env args (newDelve env args port host localPath))"

definition launchRequest :: "host_env \<Rightarrow> request_args \<Rightarrow> action list" where
  "launchRequest env args =
     (if \<not> truthy (a_program args)
      then [SendErrorResponse 3000
              (''Failed to continue: The program attribute is missing in the debug ''
               @ ''configuration in launch.json'') []]
      else initLaunchAttachRequest env args)"

definition attachRequest :: "host_env \<Rightarrow> request_args \<Rightarrow> action list" where
  "attachRequest env args =
     (if a_mode args = Some ''local'' \<and> \<not> truthyNum (a_processId args)
      then [SendErrorResponse 3000
              (''Failed to continue: the processId attribute is missing in the debug ''
               @ ''configuration in launch.json'') []]
      else if a_mode args = Some ''remote'' \<and> \<not> truthyNum (a_port args)
      then [SendErrorResponse 3000
              (''Failed to continue: the port attribute is missing in the debug ''
               @ ''configuration in launch.json'') []]
      else [])
     @ initLaunchAttachRequest env args"

text \<open>An action that starts or reaches the backend, or tells the client the session is up.\<close>

fun startsSession :: "action \<Rightarrow> bool" where
  "startsSession (Spawn cmd argv) = True"
| "startsSession (ConnectClient port host) = True"
| "startsSession (Rpc m a) = True"
| "startsSession (SendResponse b) = True"
| "startsSession (SendEvent e) = True"
| "startsSession a = False"

fun isErrorResponse3000 :: "action \<Rightarrow> bool" where
  "isErrorResponse3000 (SendErrorResponse code fmt vars) = (code = 3000)"
| "isErrorResponse3000 a = False"

section \<open>Path mapping: toDebuggerPath and toLocalPath\<close>

text \<open>JavaScript string primitives used by the two functions.\<close>

definition startsWith :: "string \<Rightarrow> string \<Rightarrow> bool" where
  "startsWith s p = (take (length p) s = p)"

text \<open>\<open>s.indexOf(pat)\<close>: the first position where \<open>pat\<close> occurs, \<open>None\<close> for \<open>-1\<close>.\<close>

fun indexOf :: "string \<Rightarrow> string \<Rightarrow> nat option" where
  "indexOf [] pat = (if pat = [] then Some 0 else None)"
| "indexOf (c # cs) pat =
     (if startsWith (c # cs) pat then Some 0 else map_option Suc (indexOf cs pat))"

text \<open>
  The replacement text of \<open>String.prototype.replace\<close> when the pattern is a string:
  \<open>$$\<close> is a dollar sign, \<open>$&\<close> the match, \<open>$`\<close> the text before it, \<open>$'\<close> the
  text after it; any other use of \<open>$\<close> stands for itself (there are no capture groups).
\<close>

fun expandTemplate :: "string \<Rightarrow> string \<Rightarrow> string \<Rightarrow> string \<Rightarrow> string" where
  "expandTemplate [] matched pre post = []"
| "expandTemplate [c] matched pre post = [c]"
| "expandTemplate (c # d # rest) matched pre post =
     (if c = CHR ''$'' \<and> d = CHR ''$'' then CHR ''$'' # expandTemplate rest matched pre post
      else if c = CHR ''$'' \<and> d = CHR ''&'' then matched @ expandTemplate rest matched pre post
      else if c = CHR ''$'' \<and> d = CHR 0x60 then pre @ expandTemplate rest matched pre post
      else if c = CHR ''$'' \<and> d = CHR 0x27 then post @ expandTemplate rest matched pre post
      else c # expandTemplate (d # rest) matched pre post)"

text \<open>\<open>s.replace(pat, repl)\<close> with a string pattern: the first occurrence only.\<close>

definition replaceFirst :: "string \<Rightarrow> string \<Rightarrow> string \<Rightarrow> string" where
  "replaceFirst s pat repl =
     (case indexOf s pat of
        None \<Rightarrow> s
      | Some i \<Rightarrow>
          take i s @ expandTemplate repl pat (take i s) (drop (i + length pat) s)
          @ drop (i + length pat) s)"

text \<open>
  The global \<open>replace\<close> of \<open>toDebuggerPath\<close> that turns every slash and every backslash
  into the one-character separator \<open>sep\<close>.
\<close>

definition replaceSlashes :: "char \<Rightarrow> string \<Rightarrow> string" where
  "replaceSlashes sep s = map (\<lambda>c. if isSlash c then sep else c) s"

text \<open>\<open>s.split(a).join(b)\<close> with one-character strings \<open>a\<close> and \<open>b\<close>.\<close>

definition splitJoin :: "char \<Rightarrow> char \<Rightarrow> string \<Rightarrow> string" where
  "splitJoin a b s = joinWith [b] (splitOn (\<lambda>c. c = a) s)"

text \<open>
  What the path functions take from outside the repository: the environment variables,
  Node's \<open>path.delimiter\<close>, \<open>path.join\<close> and \<open>path.normalize\<close> of the platform,
  \<open>process.platform === "win32"\<close>, \<open>fixDriveCasingInWindows\<close> of \<open>goPath\<close>, and the
  two path conversions that \<open>DebugSession\<close> of vscode-debugadapter provides.
\<close>

record path_env =
  GOROOT :: "string option"
  GOPATH :: "string option"
  pathDelimiter :: char
  pathJoin :: "string \<Rightarrow> string \<Rightarrow> string"
  platformWin32 :: bool
  pathNormalize :: "string \<Rightarrow> string"
  fixDriveCasingInWindows :: "string \<Rightarrow> string"
  convertClientPathToDebugger :: "string \<Rightarrow> string"
  convertDebuggerPathToClient :: "string \<Rightarrow> string"

definition toDebuggerPath :: "path_env \<Rightarrow> session \<Rightarrow> string \<Rightarrow> string" where
  "toDebuggerPath env s filePath =
     (if length (remotePath (delve s)) = 0 then convertClientPathToDebugger env filePath
      else
        (let filePath' = replaceSlashes (remotePathSeparator s) filePath
         in replaceFirst filePath'
              (replaceSlashes (remotePathSeparator s) (program (delve s)))
              (remotePath (delve s))))"

definition srcMarker :: "char \<Rightarrow> string" where
  "srcMarker sep = [sep] @ ''src'' @ [sep]"

definition modMarker :: "char \<Rightarrow> string" where
  "modMarker sep = [sep] @ ''pkg'' @ [sep] @ ''mod'' @ [sep]"

text \<open>\<open>(process.env["GOPATH"] || "").split(path.delimiter)[0]\<close>\<close>

definition firstGopath :: "path_env \<Rightarrow> string" where
  "firstGopath env =
     (case splitOn (\<lambda>c. c = pathDelimiter env) (orElse (GOPATH env) []) of
        [] \<Rightarrow> []
      | g # gs \<Rightarrow> g)"

text \<open>\<open>index > 0\<close> for the result of \<open>indexOf\<close>.\<close>

definition positive :: "nat option \<Rightarrow> bool" where
  "positive i = (case i of None \<Rightarrow> False | Some n \<Rightarrow> n > 0)"

definition genericLocalPath :: "session \<Rightarrow> string \<Rightarrow> string" where
  "genericLocalPath s pathToConvert =
     splitJoin (remotePathSeparator s) (localPathSeparator s)
       (replaceFirst pathToConvert (remotePath (delve s)) (program (delve s)))"

definition toLocalPath :: "path_env \<Rightarrow> session \<Rightarrow> string \<Rightarrow> string" where
  "toLocalPath env s pathToConvert =
     (if length (remotePath (delve s)) = 0 then convertDebuggerPathToClient env pathToConvert
      else if \<not> startsWith pathToConvert (remotePath (delve s)) then
        (let index = indexOf pathToConvert (srcMarker (remotePathSeparator s));
             goroot = GOROOT env
         in if truthy goroot \<and> positive index
            then pathJoin env (the goroot) (drop (the index) pathToConvert)
            else
              (let indexGoModCache = indexOf pathToConvert (modMarker (remotePathSeparator s));
                   gopath = firstGopath env
               in if gopath \<noteq> [] \<and> positive indexGoModCache
                  then pathJoin env gopath
                         (splitJoin (remotePathSeparator s) (localPathSeparator s)
                            (drop (the indexGoModCache) pathToConvert))
                  else genericLocalPath s pathToConvert))
      else genericLocalPath s pathToConvert)"

text \<open>
  Node's \<open>path.posix.join\<close> of two strings, for the concrete examples: the non-empty
  arguments are put together with a slash and the result is normalised (empty and
  \<open>.\<close> segments dropped, \<open>..\<close> resolved, a trailing slash kept).
\<close>

fun normalizeSegments :: "bool \<Rightarrow> string list \<Rightarrow> string list \<Rightarrow> string list" where
  "normalizeSegments allowAboveRoot res [] = rev res"
| "normalizeSegments allowAboveRoot res (seg # segs) =
     (if seg = [] \<or> seg = ''.'' then normalizeSegments allowAboveRoot res segs
      else if seg = ''..'' then
        (case res of
           [] \<Rightarrow> normalizeSegments allowAboveRoot (if allowAboveRoot then [''..''] else []) segs
         | r # rs \<Rightarrow>
             if r = ''..'' then
               normalizeSegments allowAboveRoot (if allowAboveRoot then ''..'' # res else res) segs
             else normalizeSegments allowAboveRoot rs segs)
      else normalizeSegments allowAboveRoot (seg # res) segs)"

definition posixNormalize :: "string \<Rightarrow> string" where
  "posixNormalize path =
     (if path = [] then ''.''
      else
        (let isAbsolute = (hd path = CHR ''/'');
             trailingSeparator = (last path = CHR ''/'');
             body = joinWith ''/'' (normalizeSegments (\<not> isAbsolute) []
                                      (splitOn (\<lambda>c. c = CHR ''/'') path))
         in if body = [] then (if isAbsolute then ''/'' else if trailingSeparator then ''./'' else ''.'')
            else (if isAbsolute then ''/'' else []) @ body @ (if trailingSeparator then ''/'' else [])))"

definition posixJoin :: "string \<Rightarrow> string \<Rightarrow> string" where
  "posixJoin a b =
     (if a = [] \<and> b = [] then ''.''
      else if a = [] then posixNormalize b
      else if b = [] then posixNormalize a
      else posixNormalize (a @ ''/'' @ b))"

section \<open>setBreakPoints\<close>


text \<open>
  The arguments of the request: \<open>source.path\<close>, the optional \<open>breakpoints\<close> and the
  optional (deprecated) \<open>lines\<close> of the protocol.
\<close>

record source_breakpoint =
  sb_line :: int
  sb_condition :: "string option"


text \<open>
  The backend during one \<open>setBreakPoints\<close>: the outcome of \<open>ClearBreakpoint\<close> for an id
  (\<open>None\<close> when it succeeds), the reply to the \<open>CreateBreakpoint\<close> call for the \<open>i\<close>-th
  requested breakpoint, and the reply to the \<open>ListBreakpoints\<close> call that the error
  handler of the \<open>i\<close>-th \<open>CreateBreakpoint\<close> makes (each handler makes at most one). An
  error is its \<open>toString()\<close>. Under API v2 the replies come wrapped (\<open>{Breakpoint: ...}\<close>,
  \<open>{Breakpoints: ...}\<close>) and the adapter unwraps them; the model keeps the payload.
\<close>

record bp_backend =
  clearResult :: "int \<Rightarrow> string option"
  createResult :: "nat \<Rightarrow> string + debug_breakpoint"
  listResult :: "nat \<Rightarrow> string + debug_breakpoint list"

definition loadConfigJson :: "load_config \<Rightarrow> jv" where
  "loadConfigJson c =
     JObj [(''followPointers'', JBool (followPointers c)),
           (''maxVariableRecurse'', JNum (maxVariableRecurse c)),
           (''maxStringLen'', JNum (maxStringLen c)),
           (''maxArrayValues'', JNum (maxArrayValues c)),
           (''maxStructFields'', JNum (maxStructFields c))]"





definition matchedBreakpoint ::
  "debug_breakpoint list \<Rightarrow> string \<Rightarrow> source_breakpoint \<Rightarrow> debug_breakpoint option" where
  "matchedBreakpoint existingBreakpoints remoteFile breakpoint =
     find (\<lambda>existingBreakpoint.
             bp_line existingBreakpoint = sb_line breakpoint
             \<and> bp_file existingBreakpoint = remoteFile) existingBreakpoints"

text \<open>
  The \<open>CreateBreakpoint\<close> calls are all issued at once and their error handlers run
  concurrently under \<open>Promise.all\<close>, sharing the variable \<open>existingBreakpoints\<close>. A handler
  runs in two uninterrupted pieces: the first when the reply to its own call arrives, up to
  its \<open>await\<close> of \<open>ListBreakpoints\<close> (made only if \<open>existingBreakpoints\<close> is still undefined
  at that moment); the second when the reply to that listing arrives. The order in which
  the replies arrive is the schedule of the run.
\<close>

datatype bp_event = CreateReply nat | ListReply nat

text \<open>
  Where the promise of one requested breakpoint stands: its \<open>CreateBreakpoint\<close> call is
  outstanding, its handler awaits its listing, or it has resolved to a breakpoint or to
  \<open>null\<close> (\<open>None\<close>).
\<close>

datatype handler = AwaitingCreate | AwaitingList | Returned "debug_breakpoint option"

record creating =
  existingBreakpoints :: "debug_breakpoint list option"
  handlers :: "handler list"
  listCalls :: nat

text \<open>
  The reply to the \<open>i\<close>-th \<open>CreateBreakpoint\<close> arrives. A created breakpoint resolves the
  promise. On an error that starts with "Breakpoint exists at" the handler searches
  \<open>existingBreakpoints\<close> if it is defined, else calls \<open>ListBreakpoints\<close> and waits. Any
  other error gives \<open>null\<close>.
\<close>

definition onCreateReply ::
  "bp_backend \<Rightarrow> string \<Rightarrow> source_breakpoint list \<Rightarrow> nat \<Rightarrow> creating \<Rightarrow> creating" where
  "onCreateReply be remoteFile requested i c =
     (case createResult be i of
        Inr created \<Rightarrow> c\<lparr>handlers := (handlers c)[i := Returned (Some created)]\<rparr>
      | Inl err \<Rightarrow>
          if startsWith err ''Breakpoint exists at'' then
            (case existingBreakpoints c of
               None \<Rightarrow> c\<lparr>handlers := (handlers c)[i := AwaitingList],
                         listCalls := Suc (listCalls c)\<rparr>
             | Some bps \<Rightarrow>
                 c\<lparr>handlers :=
                     (handlers c)[i := Returned (matchedBreakpoint bps remoteFile (requested ! i))]\<rparr>)
          else c\<lparr>handlers := (handlers c)[i := Returned None]\<rparr>)"

text \<open>
  The reply to the listing that the \<open>i\<close>-th handler asked for arrives: a rejection gives
  \<open>null\<close>; a listing is stored in \<open>existingBreakpoints\<close> and searched at once.
\<close>

definition onListReply ::
  "bp_backend \<Rightarrow> string \<Rightarrow> source_breakpoint list \<Rightarrow> nat \<Rightarrow> creating \<Rightarrow> creating" where
  "onListReply be remoteFile requested i c =
     (case listResult be i of
        Inl error \<Rightarrow> c\<lparr>handlers := (handlers c)[i := Returned None]\<rparr>
      | Inr bps \<Rightarrow>
          c\<lparr>existingBreakpoints := Some bps,
            handlers :=
              (handlers c)[i := Returned (matchedBreakpoint bps remoteFile (requested ! i))]\<rparr>)"

text \<open>A reply is delivered to the call that waits for it; there is no other reply.\<close>

fun deliver ::
  "bp_backend \<Rightarrow> string \<Rightarrow> source_breakpoint list \<Rightarrow> bp_event \<Rightarrow> creating \<Rightarrow> creating" where
  "deliver be remoteFile requested (CreateReply i) c =
     (if i < length (handlers c) \<and> handlers c ! i = AwaitingCreate
      then onCreateReply be remoteFile requested i c else c)"
| "deliver be remoteFile requested (ListReply i) c =
     (if i < length (handlers c) \<and> handlers c ! i = AwaitingList
      then onListReply be remoteFile requested i c else c)"

text \<open>All requested breakpoints: every call outstanding, then the replies of the schedule.\<close>

definition createBreakpoints ::
  "bp_backend \<Rightarrow> string \<Rightarrow> source_breakpoint list \<Rightarrow> bp_event list \<Rightarrow> creating" where
  "createBreakpoints be remoteFile requested schedule =
     fold (deliver be remoteFile requested) schedule
       \<lparr>existingBreakpoints = None,
        handlers = replicate (length requested) AwaitingCreate,
        listCalls = 0\<rparr>"

fun isReturned :: "handler \<Rightarrow> bool" where
  "isReturned (Returned r) = True"
| "isReturned h = False"


text \<open>
  A schedule that answers every call: appended to any schedule it leaves no promise
  pending.
\<close>

definition answerAll :: "nat \<Rightarrow> bp_event list" where
  "answerAll n = concat (map (\<lambda>i. [CreateReply i, ListReply i]) [0..<n])"





text \<open>
  What the adapter is told while it serves one \<open>setBreakPointsRequest\<close>: the outcome of
  \<open>getDebugState\<close> (an error, or the state, which may be missing from the reply), the
  outcome of the \<open>halt\<close> command (\<open>None\<close> when it resolves), the order in which the
  breakpoint replies arrive, and how the \<open>continue\<close> command issued afterwards settles
  (\<open>None\<close> while it is outstanding).
\<close>

record bp_replies =
  stateReply :: "string + debugger_state option"
  haltReply :: "string option"
  schedule :: "bp_event list"
  continueReply :: "command_outcome option"



text \<open>The answers to the client in a trace.\<close>

fun isAnswer :: "action \<Rightarrow> bool" where
  "isAnswer (SendResponse b) = True"
| "isAnswer (SendErrorResponse code format vars) = True"
| "isAnswer a = False"



section \<open>Scopes: fully-qualified names and shadowed variables\<close>

definition varName :: "debug_variable \<Rightarrow> string" where
  "varName v = v_name (vfields v)"

definition setName :: "string \<Rightarrow> debug_variable \<Rightarrow> debug_variable" where
  "setName n v = Var ((vfields v)\<lparr>v_name := n\<rparr>) (vchildren v)"

definition setFqn :: "string option \<Rightarrow> debug_variable \<Rightarrow> debug_variable" where
  "setFqn q v = Var ((vfields v)\<lparr>v_fullyQualifiedName := q\<rparr>) (vchildren v)"

definition fqn :: "debug_variable \<Rightarrow> string option" where
  "fqn v = v_fullyQualifiedName (vfields v)"

text \<open>\<open>addFullyQualifiedName\<close>\<close>

definition addFullyQualifiedName :: "debug_variable list \<Rightarrow> debug_variable list" where
  "addFullyQualifiedName variables =
     map (\<lambda>local. Var ((vfields local)\<lparr>v_fullyQualifiedName := Some (varName local)\<rparr>)
                      (map (setFqn (Some (varName local))) (vchildren local)))
         variables"

text \<open>\<open>(vars[i].flags & GoVariableFlags.VariableShadowed) !== 0\<close>, with \<open>VariableShadowed = 2\<close>.\<close>

definition isShadowed :: "debug_variable \<Rightarrow> bool" where
  "isShadowed v = (v_flags (vfields v) AND 2 \<noteq> 0)"

text \<open>
  The first loop of the annotation: the map from name to the indices of the shadowed
  variables of that name, keys in insertion order, indices in increasing order.
\<close>

fun pushIndex :: "string \<Rightarrow> nat \<Rightarrow> (string \<times> nat list) list \<Rightarrow> (string \<times> nat list) list" where
  "pushIndex name i [] = [(name, [i])]"
| "pushIndex name i ((k, indices) # m) =
     (if k = name then (k, indices @ [i]) # m else (k, indices) # pushIndex name i m)"

fun collectShadowed ::
  "debug_variable list \<Rightarrow> nat \<Rightarrow> (string \<times> nat list) list \<Rightarrow> (string \<times> nat list) list" where
  "collectShadowed [] i shadowedVars = shadowedVars"
| "collectShadowed (v # vs) i shadowedVars =
     collectShadowed vs (Suc i)
       (if \<not> isShadowed v then shadowedVars else pushIndex (varName v) i shadowedVars)"

text \<open>The inner \<open>for (count = -1; count < scope; ++count)\<close> loop run \<open>n\<close> times.\<close>

fun parenthesize :: "nat \<Rightarrow> string \<Rightarrow> string" where
  "parenthesize 0 n = n"
| "parenthesize (Suc k) n = parenthesize k (''('' @ n @ '')'')"

text \<open>
  \<open>svIndices.sort((lhs, rhs) => vars[rhs].DeclLine - vars[lhs].DeclLine)\<close>: a stable
  sort (as ECMAScript requires) by descending \<open>DeclLine\<close>.
\<close>

definition sortByDeclLine :: "debug_variable list \<Rightarrow> nat list \<Rightarrow> nat list" where
  "sortByDeclLine vars svIndices = sort_key (\<lambda>i. - v_DeclLine (vfields (vars ! i))) svIndices"

text \<open>The loop over \<open>scope\<close> for one group, starting at \<open>scope\<close>.\<close>

fun annotateGroup :: "nat list \<Rightarrow> nat \<Rightarrow> debug_variable list \<Rightarrow> debug_variable list" where
  "annotateGroup [] scope vars = vars"
| "annotateGroup (svIndex # rest) scope vars =
     annotateGroup rest (Suc scope)
       (vars[svIndex := setName (parenthesize (Suc scope) (varName (vars ! svIndex))) (vars ! svIndex)])"

text \<open>The loop over the groups, in the map's insertion order.\<close>

fun annotateGroups :: "(string \<times> nat list) list \<Rightarrow> debug_variable list \<Rightarrow> debug_variable list" where
  "annotateGroups [] vars = vars"
| "annotateGroups ((k, svIndices) # groups) vars =
     annotateGroups groups (annotateGroup (sortByDeclLine vars svIndices) 0 vars)"

definition annotateShadowed :: "debug_variable list \<Rightarrow> debug_variable list" where
  "annotateShadowed vars = annotateGroups (collectShadowed vars 0 []) vars"

text \<open>
  The part of \<open>scopesRequest\<close> that builds the Local scope from the two listings: the
  variables of the scope (arguments first), and the handle the scope is stored under.
\<close>

definition localScopeVariables :: "debug_variable list \<Rightarrow> debug_variable list \<Rightarrow> debug_variable list" where
  "localScopeVariables locals args =
     annotateShadowed (addFullyQualifiedName args @ addFullyQualifiedName locals)"

definition scopeVariable :: "string \<Rightarrow> debug_variable list \<Rightarrow> debug_variable" where
  "scopeVariable n vars =
     Var \<lparr>v_name = n, v_addr = 0, v_type = [], v_realType = [], v_kind = KInvalid, v_flags = 0,
          v_onlyAddr = False, v_DeclLine = 0, v_value = [], v_len = 0, v_cap = 0,
          v_unreadable = [], v_fullyQualifiedName = Some [], v_base = 0\<rparr> vars"

definition localScope ::
  "session \<Rightarrow> debug_variable list \<Rightarrow> debug_variable list \<Rightarrow> session \<times> (string \<times> nat \<times> bool)" where
  "localScope s locals args =
     (case createHandle (scopeVariable ''Local'' (localScopeVariables locals args))
             (variableHandles s) of
        (h, handles') \<Rightarrow> (s\<lparr>variableHandles := handles'\<rparr>, (''Local'', h, False)))"

text \<open>
  The Global scope: every package variable loses the prefix \<open><package>.\<close> of its name
  (\<open>substr(packageName.length + 1)\<close>), and the first one then named \<open>initdone\<close> followed
  by a middle dot is spliced out.
\<close>

definition initdone :: string where
  "initdone = ''initdone'' @ [CHR 0xB7]"

fun spliceFirst :: "('a \<Rightarrow> bool) \<Rightarrow> 'a list \<Rightarrow> 'a list" where
  "spliceFirst P [] = []"
| "spliceFirst P (x # xs) = (if P x then xs else x # spliceFirst P xs)"

definition globalScopeVariables :: "string \<Rightarrow> debug_variable list \<Rightarrow> debug_variable list" where
  "globalScopeVariables packageName globals =
     spliceFirst (\<lambda>v. varName v = initdone)
       (map (\<lambda>v. setName (drop (length packageName + 1) (varName v)) v) globals)"

definition globalScope ::
  "session \<Rightarrow> string \<Rightarrow> debug_variable list \<Rightarrow> session \<times> (string \<times> nat \<times> bool)" where
  "globalScope s packageName globals =
     (case createHandle (scopeVariable ''Global'' (globalScopeVariables packageName globals))
             (variableHandles s) of
        (h, handles') \<Rightarrow> (s\<lparr>variableHandles := handles'\<rparr>, (''Global'', h, False)))"

text \<open>
  \<open>getPackageInfo\<close>: \<open>null\<close> when the state has no current thread or the thread no file;
  otherwise what the cache or \<open>go list\<close> says for the directory of that file (\<open>listed\<close>,
  \<open>None\<close> when \<open>go list\<close> fails).
\<close>

definition getPackageInfo :: "string option \<Rightarrow> debugger_state \<Rightarrow> string option" where
  "getPackageInfo listed state =
     (case currentThread state of
        None \<Rightarrow> None
      | Some t \<Rightarrow> if th_file t = [] then None else listed)"

text \<open>
  What the adapter is told while it serves one \<open>scopesRequest\<close>: the replies to
  \<open>ListLocalVars\<close>, \<open>ListFunctionArgs\<close> and \<open>ListPackageVars\<close> (an error is its
  \<open>toString()\<close>; under API v2 the adapter unwraps \<open>Variables\<close> and \<open>Args\<close>), and the
  package name known for the directory of the current file.
\<close>

record scopes_replies =
  localsReply :: "string + debug_variable list"
  functionArgsReply :: "string + debug_variable list"
  packageListed :: "string option"
  packageVarsReply :: "string + debug_variable list"

definition listVarsIn :: "delve \<Rightarrow> int \<Rightarrow> int \<Rightarrow> jv" where
  "listVarsIn d goroutineId frameId =
     (let scope = JObj [(''goroutineID'', JNum goroutineId), (''frame'', JNum frameId)]
      in if isApiV1 d then scope
         else JObj [(''scope'', scope), (''cfg'', loadConfigJson (loadConfig d))])"

definition listPackageVarsCall :: "delve \<Rightarrow> string \<Rightarrow> action" where
  "listPackageVarsCall d packageName =
     (let filter = ''^'' @ packageName @ [backslash] @ ''.''
      in Rpc ''ListPackageVars''
           [if isApiV1 d then JStr filter
            else JObj [(''filter'', JStr filter), (''cfg'', loadConfigJson (loadConfig d))]])"

text \<open>
  \<open>scopesRequest\<close> for the frame handle \<open>args.frameId\<close>. Destructuring the value of an
  unknown handle throws. A failed listing is logged and answered with its error code. The
  Local scope is stored under a fresh variable handle; \<open>response.body\<close> holds the array
  of scopes, to which the Global scope is added when global variables are shown and the
  package is known. Reading \<open>currentThread\<close> of a null state throws.
\<close>

definition scopesRequest :: "scopes_replies \<Rightarrow> session \<Rightarrow> nat \<Rightarrow> session \<times> action list" where
  "scopesRequest rp s frameId =
     (case getHandle (stackFrameHandles s) frameId of
        None \<Rightarrow> (s, [Throw TypeError])
      | Some (goroutineId, frame) \<Rightarrow>
          (let listLocals = Rpc ''ListLocalVars'' [listVarsIn (delve s) goroutineId frame];
               listArgs = Rpc ''ListFunctionArgs'' [listVarsIn (delve s) goroutineId frame]
           in case localsReply rp of
                Inl err \<Rightarrow>
                  (s, [listLocals,
                       LogDelveError err ''Failed to get list local variables'',
                       SendErrorResponse 2005 ''Unable to list locals: \"{e}\"'' [(''e'', err)]])
              | Inr locals \<Rightarrow>
                  (case functionArgsReply rp of
                     Inl listFunctionErr \<Rightarrow>
                       (s, [listLocals, listArgs,
                            LogDelveError listFunctionErr ''Failed to list function args'',
                            SendErrorResponse 2006 ''Unable to list args: \"{e}\"''
                              [(''e'', listFunctionErr)]])
                   | Inr args \<Rightarrow>
                       (case localScope s locals args of
                          (s1, localSc) \<Rightarrow>
                            if \<not> showGlobalVariables s1
                            then (s1, [listLocals, listArgs, SendResponse (ScopesBody [localSc])])
                            else
                              (case debugState s1 of
                                 None \<Rightarrow> (s1, [listLocals, listArgs, Throw TypeError])
                               | Some state \<Rightarrow>
                                   (case getPackageInfo (packageListed rp) state of
                                      None \<Rightarrow>
                                        (s1, [listLocals, listArgs,
                                              SendResponse (ScopesBody [localSc])])
                                    | Some packageName \<Rightarrow>
                                        if packageName = []
                                        then (s1, [listLocals, listArgs,
                                                   SendResponse (ScopesBody [localSc])])
                                        else
                                          (case packageVarsReply rp of
                                             Inl listPkgVarsErr \<Rightarrow>
                                               (s1, [listLocals, listArgs,
                                                     listPackageVarsCall (delve s1) packageName,
                                                     LogDelveError listPkgVarsErr
                                                       ''Failed to list global vars'',
                                                     SendErrorResponse 2007
                                                       ''Unable to list global vars: \"{e}\"''
                                                       [(''e'', listPkgVarsErr)]])
                                           | Inr globals \<Rightarrow>
                                               (case globalScope s1 packageName globals of
                                                  (s2, globalSc) \<Rightarrow>
                                                    (s2, [listLocals, listArgs,
                                                          listPackageVarsCall (delve s1) packageName,
                                                          SendResponse
                                                            (ScopesBody [localSc, globalSc])])))))))))"

text \<open>
  The shadowed variables named \<open>x\<close> among the first \<open>j\<close> of \<open>vars\<close>, by index; what the
  first loop has collected after \<open>j\<close> variables; and membership of an index in a group.
\<close>

definition shadowGroup :: "debug_variable list \<Rightarrow> string \<Rightarrow> nat \<Rightarrow> nat list" where
  "shadowGroup vars x j = filter (\<lambda>i. isShadowed (vars ! i) \<and> varName (vars ! i) = x) [0..<j]"

definition groupsUpTo :: "debug_variable list \<Rightarrow> nat \<Rightarrow> (string \<times> nat list) list \<Rightarrow> bool" where
  "groupsUpTo vars j m =
     (distinct (map fst m) \<and>
      (\<forall>x. map_of m x = (if shadowGroup vars x j = [] then None else Some (shadowGroup vars x j))))"

definition inGroups :: "(string \<times> nat list) list \<Rightarrow> nat \<Rightarrow> bool" where
  "inGroups gs j = (\<exists>(x, idxs) \<in> set gs. j \<in> set idxs)"

section \<open>convertDebugVariableToProtocolVariable\<close>

definition hexDigit :: "nat \<Rightarrow> char" where
  "hexDigit d = (if d < 10 then char_of (48 + d) else char_of (87 + d))"

fun hex :: "nat \<Rightarrow> string" where
  "hex n = (if n < 16 then [hexDigit n] else hex (n div 16) @ [hexDigit (n mod 16)])"

declare hex.simps [simp del]

text \<open>A string that may be \<open>undefined\<close>, as string concatenation renders it.\<close>

definition jsStr :: "string option \<Rightarrow> string" where
  "jsStr x = (case x of None \<Rightarrow> ''undefined'' | Some v \<Rightarrow> v)"

text \<open>\<open>child.fullyQualifiedName = v.fullyQualifiedName + "." + child.name\<close> for each child.\<close>

definition qualifyChildren :: "string option \<Rightarrow> debug_variable list \<Rightarrow> debug_variable list" where
  "qualifyChildren q cs = map (\<lambda>child. setFqn (Some (jsStr q @ ''.'' @ varName child)) child) cs"

definition nilResult :: "var_fields \<Rightarrow> string" where
  "nilResult f = ''nil <'' @ v_type f @ ''>''"

text \<open>
  \<open>convertDebugVariableToProtocolVariable\<close>. The result is \<open>{result, variablesReference}\<close>
  together with the variable as the function leaves it (it assigns fully-qualified names
  to children) and the handle table. A handle stores the variable as it is at that
  moment. Strings are byte strings, so \<open>Buffer.byteLength\<close> is \<open>length\<close>. Reading
  \<open>v.children[0]\<close> of a pointer without children is a TypeError.
\<close>

definition convertDebugVariableToProtocolVariable ::
  "debug_variable \<Rightarrow> debug_variable handles
     \<Rightarrow> js_error + (string \<times> nat \<times> debug_variable \<times> debug_variable handles)" where
  "convertDebugVariableToProtocolVariable v h =
     (let f = vfields v; cs = vchildren v in
      if v_kind f = KUnsafePointer then
        (case cs of
           [] \<Rightarrow> Inl TypeError
         | c # rest \<Rightarrow> Inr (''unsafe.Pointer(0x'' @ hex (v_addr (vfields c)) @ '')'', 0, v, h))
      else if v_kind f = KPtr then
        (case cs of
           [] \<Rightarrow> Inl TypeError
         | c # rest \<Rightarrow>
             if v_addr (vfields c) = 0 then Inr (nilResult f, 0, v, h)
             else if v_type (vfields c) = ''void'' then Inr (''void'', 0, v, h)
             else
               (let c' = (if length (vchildren c) > 0
                          then Var ((vfields c)\<lparr>v_fullyQualifiedName := v_fullyQualifiedName f\<rparr>)
                                 (qualifyChildren (v_fullyQualifiedName f) (vchildren c))
                          else c);
                    v' = Var f (c' # rest)
                in case createHandle v' h of
                     (r, h') \<Rightarrow>
                       Inr (''<'' @ v_type f @ ''>(0x'' @ hex (v_addr (vfields c)) @ '')'', r, v', h')))
      else if v_kind f = KSlice then
        (if v_base f = 0 then Inr (nilResult f, 0, v, h)
         else case createHandle v h of
                (r, h') \<Rightarrow>
                  Inr (''<'' @ v_type f @ ''> (length: '' @ showInt (v_len f) @ '', cap: ''
                       @ showInt (v_cap f) @ '')'', r, v, h'))
      else if v_kind f = KMap then
        (if v_base f = 0 then Inr (nilResult f, 0, v, h)
         else case createHandle v h of
                (r, h') \<Rightarrow> Inr (''<'' @ v_type f @ ''> (length: '' @ showInt (v_len f) @ '')'', r, v, h'))
      else if v_kind f = KArray then
        (case createHandle v h of (r, h') \<Rightarrow> Inr (''<'' @ v_type f @ ''>'', r, v, h'))
      else if v_kind f = KString then
        (let byteLength = int (length (v_value f));
             val = (if v_value f \<noteq> [] \<and> byteLength < v_len f
                    then v_value f @ ''...+'' @ showInt (v_len f - byteLength) @ '' more''
                    else v_value f)
         in Inr (if v_unreadable f \<noteq> [] then ''<'' @ v_unreadable f @ ''>''
                 else [CHR 0x22] @ val @ [CHR 0x22], 0, v, h))
      else
        (let v' = (if length cs > 0 then Var f (qualifyChildren (v_fullyQualifiedName f) cs) else v);
             result = (if v_value f \<noteq> [] then v_value f else ''<'' @ v_type f @ ''>'')
         in if length cs > 0
            then (case createHandle v' h of (r, h') \<Rightarrow> Inr (result, r, v', h'))
            else Inr (result, 0, v', h)))"

text \<open>The kinds that the function treats in a branch of their own.\<close>

definition specialKind :: "GoReflectKind \<Rightarrow> bool" where
  "specialKind k = (k \<in> {KUnsafePointer, KPtr, KSlice, KMap, KArray, KString})"

section \<open>Concrete inputs used by the witnesses and counterexamples\<close>

definition ex_delve :: delve where
  "ex_delve =
     \<lparr>request = Launch, program = ''/w/main.go'', remotePath = [], noDebug = False,
      isApiV1 = False, isRemoteDebugging = False, debugProcess = Some 4242,
      localDebugeePath = Some ''/w/debug'',
      loadConfig = \<lparr>followPointers = True, maxVariableRecurse = 1, maxStringLen = 64,
                    maxArrayValues = 64, maxStructFields = -1\<rparr>\<rparr>"

definition ex_state :: debugger_state where
  "ex_state =
     \<lparr>exited = False, exitStatus = 0, currentThread = None,
      currentGoroutine =
        Some \<lparr>g_id = 1,
              userCurrentLoc = \<lparr>loc_file = ''/w/main.go'', loc_line = 7, loc_function = None\<rparr>\<rparr>,
      Running = False\<rparr>"

definition ex_session :: session where
  "ex_session =
     \<lparr>delve = ex_delve, localPathSeparator = CHR ''/'', remotePathSeparator = CHR ''/'',
      continueEpoch = 0, continueRequestRunning = False, skipStopEventOnce = False,
      debugState = Some ex_state,
      variableHandles = \<lparr>nextHandle = 1000, handleMap = []\<rparr>,
      stackFrameHandles = \<lparr>nextHandle = 1000, handleMap = []\<rparr>,
      breakpoints = Map.empty, showGlobalVariables = False\<rparr>"

definition ex_env :: host_env where
  "ex_env =
     \<lparr>win32 = False, randomPort = 38000, programStat = StatFile, programExtname = ''.go'',
      programDirname = ''/w'', envFileError = None, dlvExists = True, goBinPath = ''/usr/bin/go'',
      currentGOWorkspace = None, goModMapped = False, spawnError = None, stdoutSeen = True,
      connectError = None, getVersionReply = Inr 2\<rparr>"

definition ex_attach_args :: request_args where
  "ex_attach_args =
     \<lparr>a_request = Attach, a_program = None, a_processId = None, a_mode = Some ''local'',
      a_port = Some 2345, a_host = None, a_cwd = Some ''/w'', a_remotePath = None,
      a_noDebug = False, a_dlvToolPath = ''/go/bin/dlv'', a_apiVersion = Some 2,
      a_showLog = False, a_logOutput = None, a_buildFlags = None, a_init = None,
      a_backend = None, a_output = None, a_args = []\<rparr>"

definition ex_launch_args :: request_args where
  "ex_launch_args = ex_attach_args\<lparr>a_request := Launch, a_mode := Some ''debug''\<rparr>"

definition ex_path_env :: path_env where
  "ex_path_env =
     \<lparr>GOROOT = Some ''/usr/local/go'', GOPATH = Some ''/home/u/go'',
      pathDelimiter = CHR '':'', pathJoin = posixJoin,
      platformWin32 = False, pathNormalize = posixNormalize, fixDriveCasingInWindows = (\<lambda>p. p),
      convertClientPathToDebugger = (\<lambda>p. p), convertDebuggerPathToClient = (\<lambda>p. p)\<rparr>"

definition ex_remote_session :: session where
  "ex_remote_session =
     ex_session\<lparr>delve := ex_delve\<lparr>program := ''/home/u/proj'', remotePath := ''/srv/build''\<rparr>\<rparr>"

definition ex_windows_session :: session where
  "ex_windows_session =
     ex_session\<lparr>delve := ex_delve\<lparr>program := ''C:'' @ [backslash] @ ''proj'',
                                    remotePath := ''/srv/build''\<rparr>,
                 localPathSeparator := backslash\<rparr>"








definition ex_var :: "string \<Rightarrow> GoReflectKind \<Rightarrow> int \<Rightarrow> int \<Rightarrow> debug_variable list \<Rightarrow> debug_variable" where
  "ex_var n k fl declLine cs =
     Var \<lparr>v_name = n, v_addr = 4096, v_type = ''int'', v_realType = ''int'', v_kind = k,
          v_flags = fl, v_onlyAddr = False, v_DeclLine = declLine, v_value = ''1'', v_len = 0,
          v_cap = 0, v_unreadable = [], v_fullyQualifiedName = None, v_base = 0\<rparr> cs"

definition ex_vars :: "debug_variable list" where
  "ex_vars =
     [ex_var ''x'' KInt 2 20 [], ex_var ''x'' KInt 2 15 [], ex_var ''x'' KInt 3 25 [],
      ex_var ''y'' KInt 0 30 []]"

definition ex_struct :: debug_variable where
  "ex_struct = ex_var ''p'' KStruct 0 3 [ex_var ''f'' KInt 0 0 []]"

definition ex_slice :: debug_variable where
  "ex_slice =
     Var ((vfields (ex_var ''s'' KSlice 0 4 []))\<lparr>v_type := ''[]main.T'', v_len := 1, v_cap := 1,
                                                v_base := 8192\<rparr>)
         [ex_var [] KStruct 0 0 [ex_var ''f'' KInt 0 0 []]]"

definition ex_frame_session :: session where
  "ex_frame_session =
     ex_session\<lparr>stackFrameHandles := \<lparr>nextHandle = 1001, handleMap = [(1000, (1, 0))]\<rparr>\<rparr>"

definition ex_globals_session :: session where
  "ex_globals_session =
     ex_frame_session
       \<lparr>debugState :=
          Some (ex_state\<lparr>currentThread := Some \<lparr>th_file = ''/w/main.go'', th_goroutineID = 1\<rparr>\<rparr>),
        showGlobalVariables := True\<rparr>"

definition ex_scopes_replies :: scopes_replies where
  "ex_scopes_replies =
     \<lparr>localsReply = Inr (drop 1 ex_vars), functionArgsReply = Inr (take 1 ex_vars),
      packageListed = Some ''main'',
      packageVarsReply =
        Inr [ex_var ''main.counter'' KInt 0 0 [], ex_var (''main.'' @ initdone) KInt 0 0 [],
             ex_var ''main.table'' KInt 0 0 []]\<rparr>"

definition ex_handles :: "debug_variable handles" where
  "ex_handles = \<lparr>nextHandle = 1000, handleMap = []\<rparr>"

section \<open>Results\<close>

subsection \<open>Closing a session\<close>








subsection \<open>The continue epoch\<close>










subsection \<open>Launch and attach without the required attribute\<close>

lemma newDelve_attach_no_pid:
  assumes "a_request args = Attach" "a_mode args = Some ''local''" "\<not> truthyNum (a_processId args)"
  shows "newDelve env args port host prog = Inl TypeError
       \<or> (\<exists>why. newDelve env args port host prog = Inr ([], Rejected why, False))"
  using assms by (auto simp: newDelve_def split: option.splits)

lemma afterDelve_attach_no_pid:
  assumes "a_request args = Attach" "a_mode args = Some ''local''" "\<not> truthyNum (a_processId args)"
  shows "\<forall>a \<in> set (afterDelve env args (newDelve env args port host prog)). \<not> startsSession a"
  using newDelve_attach_no_pid[OF assms, of env port host prog]
  by (auto simp: afterDelve_def)

lemma init_attach_no_pid:
  assumes "a_request args = Attach" "a_mode args = Some ''local''" "\<not> truthyNum (a_processId args)"
  shows "\<forall>a \<in> set (initLaunchAttachRequest env args). \<not> startsSession a"
  unfolding initLaunchAttachRequest_def Let_def
  using afterDelve_attach_no_pid[OF assms]
  by (auto split: option.splits prod.splits)

text \<open>
  C7. A launch request whose program attribute is missing (or empty) is answered by one
  ErrorResponse with code 3000 and nothing else happens. An attach request with mode
  "local" and no processId is answered by an ErrorResponse with code 3000, and nothing it
  does starts the session: no process is spawned, no connection to the backend is opened,
  no backend call is issued, and neither a success response nor an event is sent.
\<close>

theorem C7_missing_attribute_does_not_start_session:
  "(\<not> truthy (a_program args) \<longrightarrow>
      launchRequest env args =
        [SendErrorResponse 3000
           (''Failed to continue: The program attribute is missing in the debug ''
            @ ''configuration in launch.json'') []])
   \<and> (a_request args = Attach \<and> a_mode args = Some ''local'' \<and> \<not> truthyNum (a_processId args) \<longrightarrow>
        (\<exists>a \<in> set (attachRequest env args). isErrorResponse3000 a)
        \<and> (\<forall>a \<in> set (attachRequest env args). \<not> startsSession a))"
proof (intro conjI impI)
  assume h: "a_request args = Attach \<and> a_mode args = Some ''local'' \<and> \<not> truthyNum (a_processId args)"
  show "\<exists>a \<in> set (attachRequest env args). isErrorResponse3000 a"
    using h by (simp add: attachRequest_def)
  show "\<forall>a \<in> set (attachRequest env args). \<not> startsSession a"
    using h init_attach_no_pid[of args env] by (auto simp: attachRequest_def)
qed (simp add: launchRequest_def)

theorem C7_missing_attribute_does_not_start_session_witness:
  "\<not> truthy (a_program ex_launch_args)
   \<and> launchRequest ex_env ex_launch_args =
        [SendErrorResponse 3000
           (''Failed to continue: The program attribute is missing in the debug ''
            @ ''configuration in launch.json'') []]
   \<and> a_request ex_attach_args = Attach \<and> a_mode ex_attach_args = Some ''local''
   \<and> \<not> truthyNum (a_processId ex_attach_args)
   \<and> attachRequest ex_env ex_attach_args =
        [SendErrorResponse 3000
           (''Failed to continue: the processId attribute is missing in the debug ''
            @ ''configuration in launch.json'') [],
         SendErrorResponse 3000 ''Failed to continue: \"{e}\"'' [(''e'', ''Missing process ID'')]]"
  using C7_missing_attribute_does_not_start_session [of ex_launch_args ex_env]
    C7_missing_attribute_does_not_start_session [of ex_attach_args ex_env]
  by (simp add: ex_launch_args_def ex_attach_args_def ex_env_def truthy_def truthyNum_def
      attachRequest_def initLaunchAttachRequest_def orElse_def newDelve_def afterDelve_def
      reasonText_def)

subsection \<open>The response to setBreakpoints\<close>



lemma deliver_length:
  "length (handlers (deliver be rf rq ev c)) = length (handlers c)"
  by (cases ev)
    (auto simp: onCreateReply_def onListReply_def split: sum.splits option.splits)

lemma run_length:
  "length (handlers (fold (deliver be rf rq) evs c)) = length (handlers c)"
  by (induction evs arbitrary: c) (simp_all add: deliver_length)

lemma deliver_returned:
  "handlers c ! i = Returned r \<Longrightarrow> handlers (deliver be rf rq ev c) ! i = Returned r"
  by (cases ev)
    (auto simp: onCreateReply_def onListReply_def nth_list_update split: sum.splits option.splits)











lemma answerAll_Suc:
  "answerAll (Suc k) = answerAll k @ [CreateReply k, ListReply k]"
  by (simp add: answerAll_def)

lemma answered_pair:
  assumes "k < length (handlers c)"
  shows "isReturned (handlers (deliver be rf rq (ListReply k) (deliver be rf rq (CreateReply k) c)) ! k)"
proof (cases "handlers c ! k")
  case AwaitingCreate
  then show ?thesis
    using assms
    by (auto simp: onCreateReply_def onListReply_def split: sum.splits option.splits)
next
  case AwaitingList
  then show ?thesis
    using assms by (auto simp: onListReply_def split: sum.splits)
next
  case (Returned r)
  then show ?thesis by simp
qed

lemma isReturned_iff: "isReturned h = (\<exists>r. h = Returned r)"
  by (cases h) auto

lemma answerAll_returns:
  "k \<le> length (handlers c) \<Longrightarrow>
     \<forall>i < k. isReturned (handlers (fold (deliver be rf rq) (answerAll k) c) ! i)"
proof (induction k)
  case 0
  then show ?case by simp
next
  case (Suc k)
  let ?c = "fold (deliver be rf rq) (answerAll k) c"
  have ih: "\<forall>i < k. isReturned (handlers ?c ! i)" using Suc by simp
  have len: "k < length (handlers ?c)" using Suc.prems by (simp add: run_length)
  show ?case
  proof (intro allI impI)
    fix i assume "i < Suc k"
    then consider "i < k" | "i = k" by linarith
    then show "isReturned (handlers (fold (deliver be rf rq) (answerAll (Suc k)) c) ! i)"
    proof cases
      case 1
      then obtain r where "handlers ?c ! i = Returned r" using ih isReturned_iff by blast
      then show ?thesis
        by (simp add: answerAll_Suc deliver_returned del: deliver.simps)
    next
      case 2
      then show ?thesis using answered_pair[OF len] by (simp add: answerAll_Suc del: deliver.simps)
    qed
  qed
qed

text \<open>
  Whatever has arrived so far, once every outstanding call is answered no promise is left
  pending: the hypothesis of the statement below that every handler has returned can be
  met from every point of every run.
\<close>

lemma every_call_answered:
  "list_all isReturned
     (handlers (createBreakpoints be rf rq (sched @ answerAll (length rq))))"
proof -
  let ?c0 = "\<lparr>existingBreakpoints = None, handlers = replicate (length rq) AwaitingCreate,
              listCalls = 0\<rparr>"
  let ?c = "fold (deliver be rf rq) sched ?c0"
  have len: "length (handlers ?c) = length rq" by (simp add: run_length)
  have "\<forall>i < length rq. isReturned (handlers (fold (deliver be rf rq) (answerAll (length rq)) ?c) ! i)"
    using answerAll_returns[of "length rq" ?c] len by simp
  moreover have "length (handlers (fold (deliver be rf rq) (answerAll (length rq)) ?c)) = length rq"
    by (simp add: run_length)
  ultimately show ?thesis
    by (simp add: createBreakpoints_def list_all_length)
qed















subsection \<open>Path mapping\<close>

lemma splitOn_nonempty: "splitOn P s \<noteq> []"
  by (induction s) (auto split: list.splits)

lemma joinWith_cons_char: "joinWith sep ((c # w) # ws) = c # joinWith sep (w # ws)"
  by (cases ws) auto

lemma splitJoin_map: "splitJoin a b s = map (\<lambda>c. if c = a then b else c) s"
proof (induction s)
  case Nil
  then show ?case by (simp add: splitJoin_def)
next
  case (Cons c cs)
  obtain w ws where ws: "splitOn (\<lambda>c. c = a) cs = w # ws"
    using splitOn_nonempty[of "\<lambda>c. c = a" cs] by (cases "splitOn (\<lambda>c. c = a) cs") auto
  show ?case
    using Cons ws by (simp add: splitJoin_def joinWith_cons_char)
qed

lemma indexOf_prefix: "startsWith s p \<Longrightarrow> indexOf s p = Some 0"
  by (cases s) (auto simp: startsWith_def)

lemma expandTemplate_no_dollar:
  "CHR ''$'' \<notin> set t \<Longrightarrow> expandTemplate t m b a = t"
  by (induction t m b a rule: expandTemplate.induct) auto

lemma replaceFirst_prefix:
  "CHR ''$'' \<notin> set r \<Longrightarrow> replaceFirst (p @ rest) p r = r @ rest"
  by (simp add: replaceFirst_def indexOf_prefix startsWith_def expandTemplate_no_dollar)

text \<open>
  C4, as the claim states it, fails. The local root is the directory \<open>proj\<close> on drive
  \<open>C:\<close>, written with a backslash (the local separator), and the remote root is
  \<open>/srv/build\<close>. The local path \<open>C:/proj/pkg/foo.go\<close>, which lies inside the root and
  has the same drive letter, goes to \<open>/srv/build/pkg/foo.go\<close> and comes back with every
  slash turned into a backslash: the way back writes every separator as the local
  separator.
\<close>

theorem C4_round_trip_rewrites_separators:
  "toDebuggerPath ex_path_env ex_windows_session ''C:/proj/pkg/foo.go'' = ''/srv/build/pkg/foo.go''
   \<and> toLocalPath ex_path_env ex_windows_session
         (toDebuggerPath ex_path_env ex_windows_session ''C:/proj/pkg/foo.go'')
       = ''C:'' @ [backslash] @ ''proj'' @ [backslash] @ ''pkg'' @ [backslash] @ ''foo.go''
   \<and> toLocalPath ex_path_env ex_windows_session
         (toDebuggerPath ex_path_env ex_windows_session ''C:/proj/pkg/foo.go'')
       \<noteq> ''C:/proj/pkg/foo.go''"
  by (simp add: toLocalPath_def toDebuggerPath_def ex_windows_session_def ex_session_def
      ex_delve_def replaceSlashes_def isSlash_def backslash_def replaceFirst_def startsWith_def
      genericLocalPath_def splitJoin_map)

text \<open>
  C4, amended. With a remote root configured, every local path \<open>P\<close> that begins with the
  program root, writes its separators as the local separator, and is mapped between roots
  that contain no \<open>$\<close> (which \<open>String.replace\<close> would expand in the replacement text)
  comes back unchanged: \<open>toLocalPath (toDebuggerPath P) = P\<close>.
\<close>

theorem C4_round_trip:
  assumes remote: "remotePath (delve s) \<noteq> []"
    and inside: "P = program (delve s) @ rest"
    and seps: "\<forall>c \<in> set P. isSlash c \<longrightarrow> c = localPathSeparator s"
    and rsep: "isSlash (remotePathSeparator s)"
    and nd1: "CHR ''$'' \<notin> set (remotePath (delve s))"
    and nd2: "CHR ''$'' \<notin> set (program (delve s))"
  shows "toLocalPath env s (toDebuggerPath env s P) = P"
proof -
  let ?r = "remotePathSeparator s" and ?l = "localPathSeparator s"
  let ?f = "replaceSlashes ?r"
  have dbg: "toDebuggerPath env s P = remotePath (delve s) @ ?f rest"
    using remote inside nd1
    by (simp add: toDebuggerPath_def replaceSlashes_def replaceFirst_prefix)
  have sw: "startsWith (remotePath (delve s) @ ?f rest) (remotePath (delve s))"
    by (simp add: startsWith_def)
  have bk: "toLocalPath env s (remotePath (delve s) @ ?f rest)
                = splitJoin ?r ?l (program (delve s) @ ?f rest)"
    using remote sw nd2 by (simp add: toLocalPath_def genericLocalPath_def replaceFirst_prefix)
  have "map (\<lambda>c. if c = ?r then ?l else c) (program (delve s) @ ?f rest) = P"
    unfolding inside replaceSlashes_def using seps rsep inside
    by (auto simp: map_idI intro!: map_idI)
  then show ?thesis
    by (simp add: dbg bk splitJoin_map)
qed

theorem C4_round_trip_witness:
  "remotePath (delve ex_remote_session) \<noteq> []
   \<and> ''/home/u/proj/pkg/foo.go'' = program (delve ex_remote_session) @ ''/pkg/foo.go''
   \<and> isSlash (remotePathSeparator ex_remote_session)
   \<and> toDebuggerPath ex_path_env ex_remote_session ''/home/u/proj/pkg/foo.go''
       = ''/srv/build/pkg/foo.go''
   \<and> toLocalPath ex_path_env ex_remote_session
        (toDebuggerPath ex_path_env ex_remote_session ''/home/u/proj/pkg/foo.go'')
       = ''/home/u/proj/pkg/foo.go''"
proof -
  have h1: "remotePath (delve ex_remote_session) \<noteq> []"
    and h2: "''/home/u/proj/pkg/foo.go'' = program (delve ex_remote_session) @ ''/pkg/foo.go''"
    and h3: "\<forall>c \<in> set ''/home/u/proj/pkg/foo.go''.
               isSlash c \<longrightarrow> c = localPathSeparator ex_remote_session"
    and h4: "isSlash (remotePathSeparator ex_remote_session)"
    and h5: "CHR ''$'' \<notin> set (remotePath (delve ex_remote_session))"
    and h6: "CHR ''$'' \<notin> set (program (delve ex_remote_session))"
    by (simp_all add: ex_remote_session_def ex_session_def ex_delve_def isSlash_def backslash_def)
  have d: "toDebuggerPath ex_path_env ex_remote_session ''/home/u/proj/pkg/foo.go''
             = ''/srv/build/pkg/foo.go''"
    by (simp add: toDebuggerPath_def ex_remote_session_def ex_session_def ex_delve_def
        replaceSlashes_def isSlash_def backslash_def replaceFirst_def startsWith_def)
  show ?thesis
    using h1 h2 h4 d C4_round_trip [OF h1 h2 h3 h4 h5 h6, of ex_path_env]
    by simp
qed

text \<open>
  C5, as the claim states it, fails for a path that begins with the marker. The remote
  path \<open>/src/runtime/proc.go\<close> does not start with the remote root \<open>/srv/build\<close>,
  contains \<open>/src/\<close> (at index 0) and GOROOT is set to \<open>/usr/local/go\<close>; the claim
  gives GOROOT joined with the suffix, \<open>/usr/local/go/src/runtime/proc.go\<close>, while the
  code, which asks for an index greater than 0, leaves the path to the generic rule.
\<close>

theorem C5_marker_at_start_is_skipped:
  "\<not> startsWith ''/src/runtime/proc.go'' (remotePath (delve ex_remote_session))
   \<and> GOROOT ex_path_env = Some ''/usr/local/go''
   \<and> indexOf ''/src/runtime/proc.go'' (srcMarker (remotePathSeparator ex_remote_session)) = Some 0
   \<and> pathJoin ex_path_env ''/usr/local/go'' (drop 0 ''/src/runtime/proc.go'')
       = ''/usr/local/go/src/runtime/proc.go''
   \<and> toLocalPath ex_path_env ex_remote_session ''/src/runtime/proc.go'' = ''/src/runtime/proc.go''"
  by code_simp

text \<open>
  C5, amended. For every remote path \<open>p\<close> that does not start with the configured
  (non-empty) remote root, \<open>toLocalPath\<close> applies these rules in order. If GOROOT is set
  and not empty and \<open><sep>src<sep>\<close> first occurs in \<open>p\<close> at an index \<open>i > 0\<close>, the result
  is \<open>path.join(GOROOT, p.substr(i))\<close>. Else, if the first element of GOPATH is not empty
  and \<open><sep>pkg<sep>mod<sep>\<close> first occurs at an index \<open>j > 0\<close>, the result is
  \<open>path.join\<close> of that element and \<open>p.substr(j)\<close> with every remote separator written as the
  local one. Else the generic rule applies. In particular
  \<open>/root/go/pkg/mod/rsc.io/quote@v1.5.2/quote.go\<close> with GOPATH \<open>/home/u/go\<close> maps to \<open>/home/u/go/pkg/mod/rsc.io/quote@v1.5.2/quote.go\<close>.
\<close>

theorem C5_fallback_rules_in_order:
  assumes "remotePath (delve s) \<noteq> []"
    and "\<not> startsWith p (remotePath (delve s))"
  shows "(truthy (GOROOT env) \<and> indexOf p (srcMarker (remotePathSeparator s)) = Some i \<and> 0 < i
            \<longrightarrow> toLocalPath env s p = pathJoin env (the (GOROOT env)) (drop i p))
       \<and> (\<not> (truthy (GOROOT env) \<and> positive (indexOf p (srcMarker (remotePathSeparator s))))
            \<and> firstGopath env \<noteq> []
            \<and> indexOf p (modMarker (remotePathSeparator s)) = Some j \<and> 0 < j
            \<longrightarrow> toLocalPath env s p =
                  pathJoin env (firstGopath env)
                    (map (\<lambda>c. if c = remotePathSeparator s then localPathSeparator s else c)
                       (drop j p)))
       \<and> (\<not> (truthy (GOROOT env) \<and> positive (indexOf p (srcMarker (remotePathSeparator s))))
            \<and> \<not> (firstGopath env \<noteq> [] \<and> positive (indexOf p (modMarker (remotePathSeparator s))))
            \<longrightarrow> toLocalPath env s p = genericLocalPath s p)
       \<and> toLocalPath ex_path_env ex_remote_session
            ''/root/go/pkg/mod/rsc.io/quote@v1.5.2/quote.go''
          = ''/home/u/go/pkg/mod/rsc.io/quote@v1.5.2/quote.go''"
proof -
  have ex: "toLocalPath ex_path_env ex_remote_session
              ''/root/go/pkg/mod/rsc.io/quote@v1.5.2/quote.go''
            = ''/home/u/go/pkg/mod/rsc.io/quote@v1.5.2/quote.go''"
    by code_simp
  show ?thesis
    using assms ex by (auto simp: toLocalPath_def positive_def Let_def splitJoin_map)
qed

theorem C5_fallback_rules_in_order_witness:
  "remotePath (delve ex_remote_session) \<noteq> []
   \<and> \<not> startsWith ''/usr/lib/go/src/runtime/proc.go'' (remotePath (delve ex_remote_session))
   \<and> truthy (GOROOT ex_path_env)
   \<and> indexOf ''/usr/lib/go/src/runtime/proc.go'' (srcMarker (remotePathSeparator ex_remote_session))
       = Some 11
   \<and> toLocalPath ex_path_env ex_remote_session ''/usr/lib/go/src/runtime/proc.go''
       = ''/usr/local/go/src/runtime/proc.go''"
proof -
  have h1: "remotePath (delve ex_remote_session) \<noteq> []"
    and h2: "\<not> startsWith ''/usr/lib/go/src/runtime/proc.go'' (remotePath (delve ex_remote_session))"
    by (simp_all add: ex_remote_session_def ex_session_def ex_delve_def startsWith_def)
  have h3: "truthy (GOROOT ex_path_env)"
    by (simp add: ex_path_env_def truthy_def)
  have h4: "indexOf ''/usr/lib/go/src/runtime/proc.go''
              (srcMarker (remotePathSeparator ex_remote_session)) = Some 11"
    by code_simp
  have j: "pathJoin ex_path_env (the (GOROOT ex_path_env)) (drop 11 ''/usr/lib/go/src/runtime/proc.go'')
             = ''/usr/local/go/src/runtime/proc.go''"
    by code_simp
  show ?thesis
    using h1 h2 h3 h4 j
      C5_fallback_rules_in_order [OF h1 h2, of ex_path_env 11 0]
    by simp
qed

subsection \<open>Names of shadowed variables\<close>

lemma parenthesize_replicate:
  "parenthesize k n = replicate k CHR ''('' @ n @ replicate k CHR '')''"
proof (induction k arbitrary: n)
  case 0
  then show ?case by simp
next
  case (Suc k)
  have "replicate k CHR ''('' @ ''('' @ n @ '')'' @ replicate k CHR '')''
        = replicate (Suc k) CHR ''('' @ n @ replicate (Suc k) CHR '')''"
    by (simp add: replicate_append_same)
  then show ?case using Suc by simp
qed

lemma map_of_pushIndex:
  "map_of (pushIndex x i m) =
     (map_of m)(x \<mapsto> (case map_of m x of None \<Rightarrow> [i] | Some old \<Rightarrow> old @ [i]))"
  by (induction m) (auto simp: fun_eq_iff)

lemma keys_pushIndex: "fst ` set (pushIndex x i m) = insert x (fst ` set m)"
proof (induction m)
  case Nil
  show ?case by simp
next
  case (Cons a m)
  obtain k idxs where a: "a = (k, idxs)" by (cases a)
  show ?case using Cons by (cases "k = x") (simp_all add: a insert_commute)
qed

lemma distinct_pushIndex:
  "distinct (map fst m) \<Longrightarrow> distinct (map fst (pushIndex x i m))"
proof (induction m)
  case Nil
  then show ?case by simp
next
  case (Cons a m)
  obtain k idxs where a: "a = (k, idxs)" by (cases a)
  show ?case
    using Cons keys_pushIndex[of x i m] by (auto simp: a)
qed

lemma shadowGroup_Suc:
  "shadowGroup vars x (Suc j) =
     shadowGroup vars x j @ (if isShadowed (vars ! j) \<and> varName (vars ! j) = x then [j] else [])"
  by (simp add: shadowGroup_def)

lemma groupsUpTo_step:
  assumes "groupsUpTo vars j m"
  shows "groupsUpTo vars (Suc j)
           (if \<not> isShadowed (vars ! j) then m else pushIndex (varName (vars ! j)) j m)"
proof (cases "isShadowed (vars ! j)")
  case False
  then show ?thesis using assms by (simp add: groupsUpTo_def shadowGroup_Suc)
next
  case True
  have d: "distinct (map fst (pushIndex (varName (vars ! j)) j m))"
    using assms by (simp add: groupsUpTo_def distinct_pushIndex)
  have "map_of (pushIndex (varName (vars ! j)) j m) x =
          (if shadowGroup vars x (Suc j) = [] then None else Some (shadowGroup vars x (Suc j)))" for x
    using assms True by (auto simp: groupsUpTo_def map_of_pushIndex shadowGroup_Suc)
  then show ?thesis using True d by (simp add: groupsUpTo_def)
qed

lemma collectShadowed_inv:
  "vs = drop j vars \<Longrightarrow> j \<le> length vars \<Longrightarrow> groupsUpTo vars j m \<Longrightarrow>
   groupsUpTo vars (length vars) (collectShadowed vs j m)"
proof (induction vs arbitrary: j m)
  case Nil
  then have "j = length vars" by simp
  then show ?case using Nil by simp
next
  case (Cons v vs)
  have j: "j < length vars" using Cons.prems(1,2)
    by (metis drop_all le_neq_implies_less list.distinct(1) order_refl)
  have v: "v = vars ! j" and vs: "vs = drop (Suc j) vars"
    using Cons.prems(1) j by (metis Cons_nth_drop_Suc list.inject)+
  have le: "Suc j \<le> length vars" using j by simp
  have step: "groupsUpTo vars (Suc j)
                (if \<not> isShadowed v then m else pushIndex (varName v) j m)"
    unfolding v by (rule groupsUpTo_step[OF Cons.prems(3)])
  show ?case
    using Cons.IH[OF vs le step] by simp
qed

lemma collectShadowed_groups:
  "groupsUpTo vars (length vars) (collectShadowed vars 0 [])"
  using collectShadowed_inv[of vars 0 vars "[]"] by (simp add: groupsUpTo_def shadowGroup_def)

lemma annotateGroup_props:
  "distinct is \<Longrightarrow> \<forall>i \<in> set is. i < length vs \<Longrightarrow>
     length (annotateGroup is c vs) = length vs
     \<and> (\<forall>j. j \<notin> set is \<longrightarrow> annotateGroup is c vs ! j = vs ! j)
     \<and> (\<forall>k < length is.
           annotateGroup is c vs ! (is ! k) =
             setName (parenthesize (Suc (c + k)) (varName (vs ! (is ! k)))) (vs ! (is ! k)))"
proof (induction "is" arbitrary: c vs)
  case Nil
  then show ?case by simp
next
  case (Cons i "is")
  let ?vs' = "vs[i := setName (parenthesize (Suc c) (varName (vs ! i))) (vs ! i)]"
  have d: "distinct is" "i \<notin> set is" and b: "\<forall>i \<in> set is. i < length ?vs'" "i < length vs"
    using Cons.prems by auto
  note ih = Cons.IH[OF d(1) b(1), of "Suc c"]
  have len: "length (annotateGroup (i # is) c vs) = length vs"
    using ih by simp
  have other: "annotateGroup (i # is) c vs ! j = vs ! j" if "j \<notin> set (i # is)" for j
    using ih that by simp
  have mine: "annotateGroup (i # is) c vs ! ((i # is) ! k) =
             setName (parenthesize (Suc (c + k)) (varName (vs ! ((i # is) ! k)))) (vs ! ((i # is) ! k))"
    if "k < length (i # is)" for k
  proof (cases k)
    case 0
    then show ?thesis using ih d(2) b(2) by simp
  next
    case (Suc k')
    then have k': "k' < length is" using that by simp
    then have ne: "is ! k' \<noteq> i" using d(2) by (metis nth_mem)
    show ?thesis
      using ih k' Suc ne by simp
  qed
  show ?case using len other mine by blast
qed

lemma sort_key_cong_on:
  "(\<And>x. x \<in> set xs \<Longrightarrow> f x = g x) \<Longrightarrow> sort_key f xs = sort_key g xs"
proof (induction xs)
  case Nil
  then show ?case by simp
next
  case (Cons a xs)
  have ins: "insort_key f a ys = insort_key g a ys" if "set ys \<subseteq> set (a # xs)" for ys
    using that Cons.prems by (induction ys) auto
  have "sort_key f xs = sort_key g xs" using Cons by simp
  moreover have "set (sort_key g xs) \<subseteq> set (a # xs)" by auto
  ultimately show ?case using ins by simp
qed

lemma sortByDeclLine_cong:
  "(\<And>i. i \<in> set is \<Longrightarrow> vs ! i = vars ! i) \<Longrightarrow> sortByDeclLine vs is = sortByDeclLine vars is"
  unfolding sortByDeclLine_def by (rule sort_key_cong_on) simp

lemma shadowGroup_props:
  "distinct (shadowGroup vars x n)"
  "i \<in> set (shadowGroup vars x n) \<longleftrightarrow> i < n \<and> isShadowed (vars ! i) \<and> varName (vars ! i) = x"
  by (auto simp: shadowGroup_def)

lemma annotateGroups_props:
  assumes "distinct (map fst gs)"
    and "\<forall>(x, idxs) \<in> set gs. idxs = shadowGroup vars x (length vars)"
    and "length vs = length vars"
    and "\<forall>j. inGroups gs j \<longrightarrow> vs ! j = vars ! j"
  shows "length (annotateGroups gs vs) = length vars
       \<and> (\<forall>j. \<not> inGroups gs j \<longrightarrow> annotateGroups gs vs ! j = vs ! j)
       \<and> (\<forall>(x, idxs) \<in> set gs. \<forall>k < length idxs.
             annotateGroups gs vs ! (sortByDeclLine vars idxs ! k) =
               setName (parenthesize (Suc k) x) (vars ! (sortByDeclLine vars idxs ! k)))"
  using assms
proof (induction gs arbitrary: vs)
  case Nil
  then show ?case by (simp add: inGroups_def)
next
  case (Cons g gs)
  obtain x idxs where g: "g = (x, idxs)" by (cases g)
  have idxs: "idxs = shadowGroup vars x (length vars)"
    using Cons.prems(2) g by simp
  let ?g = "sortByDeclLine vars idxs"
  have same: "sortByDeclLine vs idxs = ?g"
    using Cons.prems(4) by (intro sortByDeclLine_cong) (auto simp: inGroups_def g)
  have gd: "distinct ?g" and gs_set: "set ?g = set idxs" and gl: "length ?g = length idxs"
    using idxs by (simp_all add: sortByDeclLine_def shadowGroup_props)
  have gb: "\<forall>i \<in> set ?g. i < length vs"
    using gs_set idxs Cons.prems(3) by (simp add: shadowGroup_props)
  let ?vs1 = "annotateGroup ?g 0 vs"
  note ag = annotateGroup_props[OF gd gb, of 0]
  have orig: "vs ! i = vars ! i" "varName (vars ! i) = x" if "i \<in> set idxs" for i
    using that Cons.prems(4) idxs by (auto simp: inGroups_def g shadowGroup_props)
  have disj: "j \<notin> set idxs" if "inGroups gs j" for j
  proof
    assume j: "j \<in> set idxs"
    from that obtain y ys where y: "(y, ys) \<in> set gs" "j \<in> set ys"
      by (auto simp: inGroups_def)
    then have "ys = shadowGroup vars y (length vars)" using Cons.prems(2) by auto
    then have "y = x" using y(2) j idxs by (simp add: shadowGroup_props)
    then show False using y(1) Cons.prems(1) g by (auto simp: image_iff)
  qed
  have p1: "distinct (map fst gs)" using Cons.prems(1) by simp
  have p2: "\<forall>(x, idxs) \<in> set gs. idxs = shadowGroup vars x (length vars)"
    using Cons.prems(2) by simp
  have p3: "length ?vs1 = length vars" using ag[THEN conjunct1] Cons.prems(3) by simp
  have p4: "\<forall>j. inGroups gs j \<longrightarrow> ?vs1 ! j = vars ! j"
  proof (intro allI impI)
    fix j assume j: "inGroups gs j"
    then have "j \<notin> set ?g" using disj gs_set by simp
    then have "?vs1 ! j = vs ! j" using ag[THEN conjunct2, THEN conjunct1] by blast
    moreover have "inGroups (g # gs) j" using j by (auto simp: inGroups_def)
    ultimately show "?vs1 ! j = vars ! j" using Cons.prems(4) by simp
  qed
  note ih = Cons.IH[OF p1 p2 p3 p4]
  note ih1 = ih[THEN conjunct1]
  note ih2 = ih[THEN conjunct2, THEN conjunct1, rule_format]
  note ih3 = ih[THEN conjunct2, THEN conjunct2]
  note ag2 = ag[THEN conjunct2, THEN conjunct1, rule_format]
  note ag3 = ag[THEN conjunct2, THEN conjunct2, rule_format]
  have res: "annotateGroups (g # gs) vs = annotateGroups gs ?vs1"
    by (simp add: g same)
  have c1: "length (annotateGroups (g # gs) vs) = length vars"
    unfolding res by (rule ih1)
  have c2: "annotateGroups (g # gs) vs ! j = vs ! j" if "\<not> inGroups (g # gs) j" for j
  proof -
    have a: "\<not> inGroups gs j" and b: "j \<notin> set ?g"
      using that gs_set by (auto simp: inGroups_def g)
    show ?thesis unfolding res using ih2[OF a] ag2[OF b] by simp
  qed
  have c3: "annotateGroups (g # gs) vs ! (?g ! k) = setName (parenthesize (Suc k) x) (vars ! (?g ! k))"
    if "k < length idxs" for k
  proof -
    have kg: "k < length ?g" using that gl by simp
    have mem: "?g ! k \<in> set idxs" using kg gs_set by (metis nth_mem)
    then have a: "\<not> inGroups gs (?g ! k)" using disj by blast
    have "annotateGroups gs ?vs1 ! (?g ! k) = ?vs1 ! (?g ! k)" by (rule ih2[OF a])
    also have "\<dots> = setName (parenthesize (Suc (0 + k)) (varName (vs ! (?g ! k)))) (vs ! (?g ! k))"
      by (rule ag3[OF kg])
    also have "\<dots> = setName (parenthesize (Suc k) x) (vars ! (?g ! k))"
      using orig[OF mem] by simp
    finally show ?thesis unfolding res .
  qed
  have c4: "\<forall>(y, ys) \<in> set gs. \<forall>k < length ys.
             annotateGroups (g # gs) vs ! (sortByDeclLine vars ys ! k) =
               setName (parenthesize (Suc k) y) (vars ! (sortByDeclLine vars ys ! k))"
    unfolding res by (rule ih3)
  show ?case
  proof (intro conjI)
    show "length (annotateGroups (g # gs) vs) = length vars" by (rule c1)
    show "\<forall>j. \<not> inGroups (g # gs) j \<longrightarrow> annotateGroups (g # gs) vs ! j = vs ! j"
      using c2 by blast
    have "\<forall>k < length idxs.
             annotateGroups (g # gs) vs ! (sortByDeclLine vars idxs ! k) =
               setName (parenthesize (Suc k) x) (vars ! (sortByDeclLine vars idxs ! k))"
      using c3 by blast
    then show "\<forall>(y, ys) \<in> set (g # gs). \<forall>k < length ys.
             annotateGroups (g # gs) vs ! (sortByDeclLine vars ys ! k) =
               setName (parenthesize (Suc k) y) (vars ! (sortByDeclLine vars ys ! k))"
      using c4 unfolding g by (simp only: list.set ball_simps prod.case) 
  qed
qed

text \<open>
  The annotation loops on any array \<open>vars\<close>: a variable not flagged shadowed is unchanged.
  For every name \<open>x\<close>, take the indices of the variables flagged shadowed whose name is
  \<open>x\<close> and sort them by \<open>DeclLine\<close> in descending order (stably); the \<open>k\<close>-th of them,
  counting from 0, is the same variable with its name replaced by \<open>x\<close> inside exactly
  \<open>k + 1\<close> pairs of parentheses.
\<close>

lemma annotateShadowed_props:
  "length (annotateShadowed vars) = length vars
   \<and> (\<forall>i < length vars. \<not> isShadowed (vars ! i) \<longrightarrow> annotateShadowed vars ! i = vars ! i)
   \<and> set (sortByDeclLine vars (shadowGroup vars x (length vars)))
       = {i. i < length vars \<and> isShadowed (vars ! i) \<and> varName (vars ! i) = x}
   \<and> sorted (map (\<lambda>i. - v_DeclLine (vfields (vars ! i)))
                (sortByDeclLine vars (shadowGroup vars x (length vars))))
   \<and> (\<forall>k < length (sortByDeclLine vars (shadowGroup vars x (length vars))).
         annotateShadowed vars ! (sortByDeclLine vars (shadowGroup vars x (length vars)) ! k)
           = setName (replicate (Suc k) CHR ''('' @ x @ replicate (Suc k) CHR '')'')
               (vars ! (sortByDeclLine vars (shadowGroup vars x (length vars)) ! k)))"
proof -
  let ?n = "length vars"
  let ?m = "collectShadowed vars 0 []"
  have inv: "groupsUpTo vars ?n ?m" by (rule collectShadowed_groups)
  then have d: "distinct (map fst ?m)"
    and look: "\<And>y. map_of ?m y =
                 (if shadowGroup vars y ?n = [] then None else Some (shadowGroup vars y ?n))"
    by (simp_all add: groupsUpTo_def)
  have grp: "\<forall>(y, idxs) \<in> set ?m. idxs = shadowGroup vars y ?n"
  proof (clarify)
    fix y idxs assume "(y, idxs) \<in> set ?m"
    then have "map_of ?m y = Some idxs" using d by simp
    then show "idxs = shadowGroup vars y ?n" using look[of y] by (simp split: if_splits)
  qed
  have start: "\<forall>j. inGroups ?m j \<longrightarrow> vars ! j = vars ! j" by simp
  note props = annotateGroups_props[OF d grp refl start]
  have c1: "length (annotateShadowed vars) = length vars"
    using props[THEN conjunct1] by (simp add: annotateShadowed_def)
  have c2: "\<forall>i < length vars. \<not> isShadowed (vars ! i) \<longrightarrow> annotateShadowed vars ! i = vars ! i"
  proof (intro allI impI)
    fix i assume "i < length vars" and ns: "\<not> isShadowed (vars ! i)"
    have "\<not> inGroups ?m i"
      using grp ns by (auto simp: inGroups_def shadowGroup_props)
    then show "annotateShadowed vars ! i = vars ! i"
      using props[THEN conjunct2, THEN conjunct1] by (simp add: annotateShadowed_def)
  qed
  let ?g = "sortByDeclLine vars (shadowGroup vars x ?n)"
  have c3: "set ?g = {i. i < length vars \<and> isShadowed (vars ! i) \<and> varName (vars ! i) = x}"
    by (auto simp: sortByDeclLine_def shadowGroup_props)
  have c4: "sorted (map (\<lambda>i. - v_DeclLine (vfields (vars ! i))) ?g)"
    unfolding sortByDeclLine_def by (rule sorted_sort_key)
  have c5: "\<forall>k < length ?g.
         annotateShadowed vars ! (?g ! k)
           = setName (replicate (Suc k) CHR ''('' @ x @ replicate (Suc k) CHR '')'') (vars ! (?g ! k))"
  proof (cases "shadowGroup vars x ?n = []")
    case True
    then show ?thesis by (simp add: sortByDeclLine_def)
  next
    case False
    then have "map_of ?m x = Some (shadowGroup vars x ?n)" using look[of x] by simp
    then have mem: "(x, shadowGroup vars x ?n) \<in> set ?m" by (rule map_of_SomeD)
    have len: "length ?g = length (shadowGroup vars x ?n)"
      by (simp add: sortByDeclLine_def)
    have "\<forall>k < length (shadowGroup vars x ?n).
            annotateGroups ?m vars ! (?g ! k) = setName (parenthesize (Suc k) x) (vars ! (?g ! k))"
      using props[THEN conjunct2, THEN conjunct2] mem by blast
    then show ?thesis
      unfolding annotateShadowed_def len parenthesize_replicate .
  qed
  show ?thesis using c1 c2 c3 c4 c5 by blast
qed

lemma getHandle_created:
  "getHandle (snd (createHandle v h)) (nextHandle h) = Some v"
  by (simp add: getHandle_def createHandle_def)

lemma getHandle_other:
  "k \<noteq> nextHandle h \<Longrightarrow> getHandle (snd (createHandle v h)) k = getHandle h k"
  by (simp add: getHandle_def createHandle_def map_of_append)

lemma localScope_stored:
  "localScope s locals args = (s1, sc) \<Longrightarrow>
     sc = (''Local'', nextHandle (variableHandles s), False)
     \<and> nextHandle (variableHandles s1) = Suc (nextHandle (variableHandles s))
     \<and> getHandle (variableHandles s1) (nextHandle (variableHandles s))
         = Some (scopeVariable ''Local'' (localScopeVariables locals args))"
  by (auto simp: localScope_def getHandle_def createHandle_def)

lemma globalScope_keeps:
  "globalScope s1 p globals = (s2, sc) \<Longrightarrow> k \<noteq> nextHandle (variableHandles s1) \<Longrightarrow>
     getHandle (variableHandles s2) k = getHandle (variableHandles s1) k"
  by (auto simp: globalScope_def getHandle_def createHandle_def map_of_append)

text \<open>
  A scopes response is sent only after both listings succeeded; its first scope is the
  Local scope, whose handle refers to the annotated variables.
\<close>

lemma scopesRequest_response:
  assumes sent: "SendResponse body \<in> set (snd (scopesRequest rp s frameId))"
  shows "\<exists>locals args more.
           localsReply rp = Inr locals \<and> functionArgsReply rp = Inr args
           \<and> body = ScopesBody ((''Local'', nextHandle (variableHandles s), False) # more)
           \<and> getHandle (variableHandles (fst (scopesRequest rp s frameId)))
                (nextHandle (variableHandles s))
               = Some (scopeVariable ''Local'' (localScopeVariables locals args))"
proof -
  obtain goroutineId frame where fr: "getHandle (stackFrameHandles s) frameId = Some (goroutineId, frame)"
    using sent by (cases "getHandle (stackFrameHandles s) frameId") (auto simp: scopesRequest_def)
  obtain locals where lo: "localsReply rp = Inr locals"
    using sent fr by (cases "localsReply rp") (auto simp: scopesRequest_def Let_def)
  obtain args where ar: "functionArgsReply rp = Inr args"
    using sent fr lo by (cases "functionArgsReply rp") (auto simp: scopesRequest_def Let_def)
  obtain s1 sc where ls: "localScope s locals args = (s1, sc)"
    by (cases "localScope s locals args") auto
  note st = localScope_stored[OF ls]
  have neq: "nextHandle (variableHandles s) \<noteq> nextHandle (variableHandles s1)"
    using st by simp
  have "\<exists>more. body = ScopesBody ((''Local'', nextHandle (variableHandles s), False) # more)
           \<and> getHandle (variableHandles (fst (scopesRequest rp s frameId)))
                (nextHandle (variableHandles s))
               = Some (scopeVariable ''Local'' (localScopeVariables locals args))"
    using sent fr lo ar ls st globalScope_keeps[OF _ neq]
    by (auto simp: scopesRequest_def listPackageVarsCall_def Let_def
        split: option.splits sum.splits prod.splits if_splits)
  then show ?thesis using lo ar by blast
qed

lemma addFullyQualifiedName_keeps:
  assumes "i < length vs"
  shows "varName (addFullyQualifiedName vs ! i) = varName (vs ! i)"
    and "isShadowed (addFullyQualifiedName vs ! i) = isShadowed (vs ! i)"
    and "v_DeclLine (vfields (addFullyQualifiedName vs ! i)) = v_DeclLine (vfields (vs ! i))"
  using assms by (simp_all add: addFullyQualifiedName_def varName_def isShadowed_def)

lemma addFullyQualifiedName_append:
  "addFullyQualifiedName args @ addFullyQualifiedName locals = addFullyQualifiedName (args @ locals)"
  by (simp add: addFullyQualifiedName_def)

text \<open>
  C6. Whenever \<open>scopesRequest\<close> sends a response, both listings succeeded and the first
  scope of the response is the Local scope, under a handle that refers to the list
  \<open>shown\<close> built from the two listings. Let \<open>vars\<close> be the array the annotation loops run
  over: the listed arguments followed by the listed locals, each with the name, flags and
  \<open>DeclLine\<close> the backend reported. \<open>shown\<close> has the variables of \<open>vars\<close>, position by
  position. A variable not flagged shadowed is unchanged. For every name \<open>x\<close>, take the
  indices of the variables flagged shadowed whose name is \<open>x\<close> and sort them by
  \<open>DeclLine\<close> in descending order (stably); the \<open>k\<close>-th of them, counting from 0, is
  shown as the same variable with its name replaced by \<open>x\<close> inside exactly \<open>k + 1\<close> pairs
  of parentheses.
\<close>

theorem C6_shadowed_names_in_parentheses:
  assumes sent: "SendResponse body \<in> set (snd (scopesRequest rp s frameId))"
  shows "\<exists>locals args more.
           localsReply rp = Inr locals \<and> functionArgsReply rp = Inr args
           \<and> body = ScopesBody ((''Local'', nextHandle (variableHandles s), False) # more)
           \<and> (let vars = addFullyQualifiedName args @ addFullyQualifiedName locals;
                   shown = localScopeVariables locals args
               in getHandle (variableHandles (fst (scopesRequest rp s frameId)))
                    (nextHandle (variableHandles s))
                   = Some (scopeVariable ''Local'' shown)
                  \<and> length vars = length (args @ locals)
                  \<and> (\<forall>i < length vars.
                        varName (vars ! i) = varName ((args @ locals) ! i)
                        \<and> isShadowed (vars ! i) = isShadowed ((args @ locals) ! i)
                        \<and> v_DeclLine (vfields (vars ! i))
                            = v_DeclLine (vfields ((args @ locals) ! i)))
                  \<and> length shown = length vars
                  \<and> (\<forall>i < length vars. \<not> isShadowed (vars ! i) \<longrightarrow> shown ! i = vars ! i)
                  \<and> (\<forall>x. let group = sortByDeclLine vars (shadowGroup vars x (length vars))
                          in set group
                               = {i. i < length vars \<and> isShadowed (vars ! i) \<and> varName (vars ! i) = x}
                             \<and> sorted (map (\<lambda>i. - v_DeclLine (vfields (vars ! i))) group)
                             \<and> (\<forall>k < length group.
                                   shown ! (group ! k)
                                     = setName (replicate (Suc k) CHR ''('' @ x
                                                @ replicate (Suc k) CHR '')'')
                                         (vars ! (group ! k)))))"
proof -
  obtain locals args more where r:
    "localsReply rp = Inr locals" "functionArgsReply rp = Inr args"
    "body = ScopesBody ((''Local'', nextHandle (variableHandles s), False) # more)"
    "getHandle (variableHandles (fst (scopesRequest rp s frameId))) (nextHandle (variableHandles s))
       = Some (scopeVariable ''Local'' (localScopeVariables locals args))"
    using scopesRequest_response[OF sent] by blast
  let ?vars = "addFullyQualifiedName args @ addFullyQualifiedName locals"
  let ?shown = "localScopeVariables locals args"
  have sh: "?shown = annotateShadowed ?vars"
    by (simp add: localScopeVariables_def)
  have len: "length ?vars = length (args @ locals)"
    by (simp add: addFullyQualifiedName_def)
  have same: "\<forall>i < length ?vars.
                varName (?vars ! i) = varName ((args @ locals) ! i)
                \<and> isShadowed (?vars ! i) = isShadowed ((args @ locals) ! i)
                \<and> v_DeclLine (vfields (?vars ! i)) = v_DeclLine (vfields ((args @ locals) ! i))"
    unfolding addFullyQualifiedName_append
    using addFullyQualifiedName_keeps[of _ "args @ locals"]
    by (simp add: addFullyQualifiedName_def)
  have p1: "length ?shown = length ?vars"
    unfolding sh using annotateShadowed_props[of ?vars] by blast
  have p2: "\<forall>i < length ?vars. \<not> isShadowed (?vars ! i) \<longrightarrow> ?shown ! i = ?vars ! i"
    unfolding sh using annotateShadowed_props[of ?vars] by blast
  have p3: "\<forall>x. let group = sortByDeclLine ?vars (shadowGroup ?vars x (length ?vars))
                in set group
                     = {i. i < length ?vars \<and> isShadowed (?vars ! i) \<and> varName (?vars ! i) = x}
                   \<and> sorted (map (\<lambda>i. - v_DeclLine (vfields (?vars ! i))) group)
                   \<and> (\<forall>k < length group.
                         ?shown ! (group ! k)
                           = setName (replicate (Suc k) CHR ''('' @ x @ replicate (Suc k) CHR '')'')
                               (?vars ! (group ! k)))"
  proof
    fix x
    show "let group = sortByDeclLine ?vars (shadowGroup ?vars x (length ?vars))
                in set group
                     = {i. i < length ?vars \<and> isShadowed (?vars ! i) \<and> varName (?vars ! i) = x}
                   \<and> sorted (map (\<lambda>i. - v_DeclLine (vfields (?vars ! i))) group)
                   \<and> (\<forall>k < length group.
                         ?shown ! (group ! k)
                           = setName (replicate (Suc k) CHR ''('' @ x @ replicate (Suc k) CHR '')'')
                               (?vars ! (group ! k)))"
      unfolding sh Let_def
      using annotateShadowed_props[of ?vars x] by blast
  qed
  show ?thesis
    unfolding Let_def
    using r(1,2,3) r(4) len same p1 p2 p3[unfolded Let_def]
    by (intro exI[of _ locals] exI[of _ args] exI[of _ more] conjI)
qed

theorem C6_shadowed_names_in_parentheses_witness:
  "SendResponse (ScopesBody [(''Local'', 1000, False)])
     \<in> set (snd (scopesRequest ex_scopes_replies ex_frame_session 1000))
   \<and> functionArgsReply ex_scopes_replies = Inr (take 1 ex_vars)
   \<and> localsReply ex_scopes_replies = Inr (drop 1 ex_vars)
   \<and> map varName (take 1 ex_vars @ drop 1 ex_vars) = [''x'', ''x'', ''x'', ''y'']
   \<and> map isShadowed (take 1 ex_vars @ drop 1 ex_vars) = [True, True, True, False]
   \<and> map (\<lambda>v. v_DeclLine (vfields v)) (take 1 ex_vars @ drop 1 ex_vars) = [20, 15, 25, 30]
   \<and> map_option (\<lambda>v. map varName (vchildren v))
        (getHandle (variableHandles (fst (scopesRequest ex_scopes_replies ex_frame_session 1000)))
           1000)
       = Some [''((x))'', ''(((x)))'', ''(x)'', ''y'']
   \<and> filter isAnswer (snd (scopesRequest ex_scopes_replies ex_globals_session 1000))
       = [SendResponse (ScopesBody [(''Local'', 1000, False), (''Global'', 1001, False)])]"
proof -
  have frame: "getHandle (stackFrameHandles ex_frame_session) 1000 = Some (1, 0)"
    "getHandle (stackFrameHandles ex_globals_session) 1000 = Some (1, 0)"
    by (simp_all add: getHandle_def ex_globals_session_def ex_frame_session_def)
  have replies: "functionArgsReply ex_scopes_replies = Inr (take 1 ex_vars)"
    "localsReply ex_scopes_replies = Inr (drop 1 ex_vars)"
    "packageListed ex_scopes_replies = Some ''main''"
    "\<exists>globals. packageVarsReply ex_scopes_replies = Inr globals"
    by (simp_all add: ex_scopes_replies_def)
  have session: "showGlobalVariables ex_globals_session"
    "\<not> showGlobalVariables ex_frame_session"
    "variableHandles ex_frame_session = \<lparr>nextHandle = 1000, handleMap = []\<rparr>"
    "variableHandles ex_globals_session = \<lparr>nextHandle = 1000, handleMap = []\<rparr>"
    "debugState ex_globals_session =
       Some (ex_state\<lparr>currentThread := Some \<lparr>th_file = ''/w/main.go'', th_goroutineID = 1\<rparr>\<rparr>)"
    by (simp_all add: ex_globals_session_def ex_frame_session_def ex_session_def)
  have trace: "snd (scopesRequest ex_scopes_replies ex_frame_session 1000)
                 = [Rpc ''ListLocalVars'' [listVarsIn (delve ex_frame_session) 1 0],
                    Rpc ''ListFunctionArgs'' [listVarsIn (delve ex_frame_session) 1 0],
                    SendResponse (ScopesBody [(''Local'', 1000, False)])]"
    using frame replies session
    by (simp add: scopesRequest_def localScope_def createHandle_def Let_def)
  have stored: "getHandle (variableHandles (fst (scopesRequest ex_scopes_replies ex_frame_session 1000)))
                  1000
                 = Some (scopeVariable ''Local'' (localScopeVariables (drop 1 ex_vars) (take 1 ex_vars)))"
    using frame replies session
    by (simp add: scopesRequest_def localScope_def createHandle_def getHandle_def Let_def)
  have globals: "filter isAnswer (snd (scopesRequest ex_scopes_replies ex_globals_session 1000))
       = [SendResponse (ScopesBody [(''Local'', 1000, False), (''Global'', 1001, False)])]"
    using frame replies session
    by (auto simp: scopesRequest_def localScope_def globalScope_def createHandle_def
        getPackageInfo_def listPackageVarsCall_def Let_def)
  have vars: "map varName (take 1 ex_vars @ drop 1 ex_vars) = [''x'', ''x'', ''x'', ''y'']"
    "map isShadowed (take 1 ex_vars @ drop 1 ex_vars) = [True, True, True, False]"
    "map (\<lambda>v. v_DeclLine (vfields v)) (take 1 ex_vars @ drop 1 ex_vars) = [20, 15, 25, 30]"
    "map varName (localScopeVariables (drop 1 ex_vars) (take 1 ex_vars))
       = [''((x))'', ''(((x)))'', ''(x)'', ''y'']"
    by code_simp+
  have sent: "SendResponse (ScopesBody [(''Local'', 1000, False)])
                \<in> set (snd (scopesRequest ex_scopes_replies ex_frame_session 1000))"
    by (simp add: trace)
  have "\<exists>more. ScopesBody [(''Local'', 1000, False)]
                 = ScopesBody ((''Local'', nextHandle (variableHandles ex_frame_session), False) # more)"
    using C6_shadowed_names_in_parentheses [OF sent] by blast
  then show ?thesis
    using sent replies(1,2) vars globals by (simp add: stored scopeVariable_def)
qed

subsection \<open>Fully-qualified names\<close>

lemma addFullyQualifiedName_nth:
  "i < length vars \<Longrightarrow>
     addFullyQualifiedName vars ! i =
       Var ((vfields (vars ! i))\<lparr>v_fullyQualifiedName := Some (varName (vars ! i))\<rparr>)
           (map (setFqn (Some (varName (vars ! i)))) (vchildren (vars ! i)))"
  by (simp add: addFullyQualifiedName_def)

text \<open>
  C8, as the claim states it, fails. After the listing has assigned fully-qualified names
  to a struct variable \<open>p\<close> with a field \<open>f\<close>, the field's fully-qualified name is \<open>p\<close>,
  not \<open>p.f\<close>. And for a slice variable \<open>s\<close> the element below it keeps the name \<open>s\<close>
  as its fully-qualified name even after \<open>s\<close> has been rendered.
\<close>

theorem C8_child_gets_parent_name:
  "fqn (addFullyQualifiedName [ex_struct] ! 0) = Some ''p''
   \<and> map varName (vchildren (addFullyQualifiedName [ex_struct] ! 0)) = [''f'']
   \<and> map fqn (vchildren (addFullyQualifiedName [ex_struct] ! 0)) = [Some ''p'']
   \<and> (case convertDebugVariableToProtocolVariable (addFullyQualifiedName [ex_slice] ! 0) ex_handles of
         Inl e \<Rightarrow> False
       | Inr (result, r, v', h') \<Rightarrow>
           result = ''<[]main.T> (length: 1, cap: 1)'' \<and> map fqn (vchildren v') = [Some ''s''])"
  by code_simp

text \<open>
  C8, amended. After \<open>addFullyQualifiedName\<close> has run on a listing, every top-level
  variable's fully-qualified name is the name the backend reported for it, and every
  child of such a variable has the parent's name as its fully-qualified name. The form
  \<open><parent-fqn>.<child-name>\<close> is assigned when a variable is rendered by
  \<open>convertDebugVariableToProtocolVariable\<close>: to every child of a variable of struct-like
  kind (none of unsafe pointer, pointer, slice, map, array, string); and, for a pointer
  whose target is neither nil nor void and has children, to the target's children, the
  target itself taking the pointer's fully-qualified name unchanged.
\<close>

theorem C8_fully_qualified_names:
  "length (addFullyQualifiedName vars) = length vars
   \<and> (\<forall>i < length vars.
         fqn (addFullyQualifiedName vars ! i) = Some (varName (vars ! i))
         \<and> varName (addFullyQualifiedName vars ! i) = varName (vars ! i)
         \<and> map varName (vchildren (addFullyQualifiedName vars ! i)) = map varName (vchildren (vars ! i))
         \<and> (\<forall>c \<in> set (vchildren (addFullyQualifiedName vars ! i)). fqn c = Some (varName (vars ! i))))
   \<and> (\<not> specialKind (v_kind (vfields v)) \<longrightarrow>
        (\<exists>result r h'.
           convertDebugVariableToProtocolVariable v h =
             Inr (result, r, Var (vfields v) (qualifyChildren (fqn v) (vchildren v)), h')))
   \<and> (v_kind (vfields v) = KPtr \<and> vchildren v = c # rest \<and> v_addr (vfields c) \<noteq> 0
        \<and> v_type (vfields c) \<noteq> ''void'' \<and> vchildren c \<noteq> [] \<longrightarrow>
        (\<exists>result r h'.
           convertDebugVariableToProtocolVariable v h =
             Inr (result, r,
                  Var (vfields v)
                    (Var ((vfields c)\<lparr>v_fullyQualifiedName := fqn v\<rparr>)
                       (qualifyChildren (fqn v) (vchildren c)) # rest), h')))
   \<and> (\<forall>child \<in> set (qualifyChildren q cs). fqn child = Some (jsStr q @ ''.'' @ varName child))
   \<and> map varName (qualifyChildren q cs) = map varName cs"
proof (intro conjI allI impI)
  show "length (addFullyQualifiedName vars) = length vars"
    by (simp add: addFullyQualifiedName_def)
next
  fix i assume i: "i < length vars"
  show "fqn (addFullyQualifiedName vars ! i) = Some (varName (vars ! i))"
    by (simp add: addFullyQualifiedName_nth[OF i] fqn_def)
  show "varName (addFullyQualifiedName vars ! i) = varName (vars ! i)"
    by (simp add: addFullyQualifiedName_nth[OF i] varName_def)
  show "map varName (vchildren (addFullyQualifiedName vars ! i)) = map varName (vchildren (vars ! i))"
    by (simp add: addFullyQualifiedName_nth[OF i] varName_def setFqn_def)
  show "\<forall>c \<in> set (vchildren (addFullyQualifiedName vars ! i)). fqn c = Some (varName (vars ! i))"
    by (auto simp: addFullyQualifiedName_nth[OF i] fqn_def setFqn_def)
next
  assume "\<not> specialKind (v_kind (vfields v))"
  then show "\<exists>result r h'.
           convertDebugVariableToProtocolVariable v h =
             Inr (result, r, Var (vfields v) (qualifyChildren (fqn v) (vchildren v)), h')"
    by (cases v) (auto simp: convertDebugVariableToProtocolVariable_def specialKind_def Let_def
        fqn_def qualifyChildren_def split: prod.splits)
next
  assume "v_kind (vfields v) = KPtr \<and> vchildren v = c # rest \<and> v_addr (vfields c) \<noteq> 0
        \<and> v_type (vfields c) \<noteq> ''void'' \<and> vchildren c \<noteq> []"
  then show "\<exists>result r h'.
           convertDebugVariableToProtocolVariable v h =
             Inr (result, r,
                  Var (vfields v)
                    (Var ((vfields c)\<lparr>v_fullyQualifiedName := fqn v\<rparr>)
                       (qualifyChildren (fqn v) (vchildren c)) # rest), h')"
    by (simp add: convertDebugVariableToProtocolVariable_def Let_def fqn_def split: prod.splits)
next
  show "\<forall>child \<in> set (qualifyChildren q cs). fqn child = Some (jsStr q @ ''.'' @ varName child)"
    by (auto simp: qualifyChildren_def fqn_def setFqn_def varName_def)
  show "map varName (qualifyChildren q cs) = map varName cs"
    by (simp add: qualifyChildren_def varName_def setFqn_def)
qed

theorem C8_fully_qualified_names_witness:
  "0 < length [ex_struct] \<and> \<not> specialKind (v_kind (vfields (addFullyQualifiedName [ex_struct] ! 0)))
   \<and> fqn (addFullyQualifiedName [ex_struct] ! 0) = Some ''p''
   \<and> map fqn (vchildren (addFullyQualifiedName [ex_struct] ! 0)) = [Some ''p'']
   \<and> (case convertDebugVariableToProtocolVariable (addFullyQualifiedName [ex_struct] ! 0) ex_handles of
         Inl e \<Rightarrow> False
       | Inr (result, r, v', h') \<Rightarrow>
           result = ''1'' \<and> r = 1000 \<and> map fqn (vchildren v') = [Some ''p.f''])"
proof -
  have run: "\<not> specialKind (v_kind (vfields (addFullyQualifiedName [ex_struct] ! 0)))"
    "fqn (addFullyQualifiedName [ex_struct] ! 0) = Some ''p''"
    "map fqn (vchildren (addFullyQualifiedName [ex_struct] ! 0)) = [Some ''p'']"
    "(case convertDebugVariableToProtocolVariable (addFullyQualifiedName [ex_struct] ! 0) ex_handles of
         Inl e \<Rightarrow> False
       | Inr (result, r, v', h') \<Rightarrow>
           result = ''1'' \<and> r = 1000 \<and> map fqn (vchildren v') = [Some ''p.f''])"
    by code_simp+
  have "length (addFullyQualifiedName [ex_struct]) = length [ex_struct]"
    using C8_fully_qualified_names
      [of "[ex_struct]" "addFullyQualifiedName [ex_struct] ! 0" ex_handles] by blast
  then show ?thesis using run by simp
qed

subsection \<open>Threads after the target has exited\<close>

text \<open>
  C9. When the callback of \<open>ListGoroutines\<close> runs on a session whose last observed
  debugger state has \<open>exited = true\<close>, it sends the successful response with an empty
  thread list and nothing else, whatever error or reply the call came back with.
\<close>

theorem C9_threads_after_exit_empty_list:
  assumes "debugState s = Some st" and "exited st"
  shows "threadsCallback s err out = Inr [SendResponse (ThreadsBody [])]"
  using assms by (simp add: threadsCallback_def)

theorem C9_threads_after_exit_empty_list_witness:
  "debugState (ex_session\<lparr>debugState := Some (ex_state\<lparr>exited := True\<rparr>)\<rparr>)
     = Some (ex_state\<lparr>exited := True\<rparr>)
   \<and> exited (ex_state\<lparr>exited := True\<rparr>)
   \<and> threadsCallback (ex_session\<lparr>debugState := Some (ex_state\<lparr>exited := True\<rparr>)\<rparr>)
        (Some ''connection closed'') None
      = Inr [SendResponse (ThreadsBody [])]"
  using C9_threads_after_exit_empty_list
    [of "ex_session\<lparr>debugState := Some (ex_state\<lparr>exited := True\<rparr>)\<rparr>"
        "ex_state\<lparr>exited := True\<rparr>" "Some ''connection closed''" None]
  by simp

subsection \<open>setVariable\<close>

text \<open>
  C10. On every successful setVariable request the value in the response body is exactly
  the value string of the request, and the adapter issues no backend call besides the one
  \<open>SetSymbol\<close>/\<open>Set\<close>: it does not read the variable back.
\<close>

theorem C10_setVariable_echoes_requested_value:
  assumes "debugState s = Some st" and "currentGoroutine st = Some g"
  shows "setVariable s args None =
           Inr [Rpc (if isApiV1 (delve s) then ''SetSymbol'' else ''Set'') [setSymbolArgs (g_id g) args],
                SendResponse (SetVariableBody (sv_value args))]"
  using assms by (simp add: setVariable_def setVariableRequest_def setVariableCallback_def)

theorem C10_setVariable_echoes_requested_value_witness:
  "debugState ex_session = Some ex_state
   \<and> currentGoroutine ex_state =
       Some \<lparr>g_id = 1,
             userCurrentLoc = \<lparr>loc_file = ''/w/main.go'', loc_line = 7, loc_function = None\<rparr>\<rparr>
   \<and> setVariable ex_session
        \<lparr>sv_variablesReference = 1000, sv_name = ''x'', sv_value = ''0x2A''\<rparr> None
      = Inr [Rpc ''Set''
               [JObj [(''Scope'', JObj [(''goroutineID'', JNum 1)]),
                      (''Symbol'', JStr ''x''), (''Value'', JStr ''0x2A'')]],
             SendResponse (SetVariableBody ''0x2A'')]"
  using C10_setVariable_echoes_requested_value
    [of ex_session ex_state
        "\<lparr>g_id = 1,
          userCurrentLoc = \<lparr>loc_file = ''/w/main.go'', loc_line = 7, loc_function = None\<rparr>\<rparr>"
        "\<lparr>sv_variablesReference = 1000, sv_name = ''x'', sv_value = ''0x2A''\<rparr>"]
  by (simp add: ex_session_def ex_state_def ex_delve_def setSymbolArgs_def)

end
